theory Spec2Isabelle
  imports Main "HOL-Library.AList"
begin

text \<open>
  A model of \<open>packages/tdl/src/client.js\<close>, the session layer of tdl over the
  TDLib JSON interface: the deferred gates of \<open>connect\<close> and \<open>login\<close>, the
  map of pending requests, the routing of the messages of the engine, the
  authorization flow and the receive loop. The session is a record; every method takes
  the session and returns the new one. What the session does to its surroundings
  (events, calls of promise functions, calls of the engine, prompts of the login
  callbacks) is appended to a trace. The definitions come first, the properties
  after them.
\<close>

section \<open>Values, errors and effects\<close>

text \<open>
  Messages of the engine are JSON objects. An object is an association list from
  keys to values; a missing key reads as \<open>JUndefined\<close>, as a property
  read does in JavaScript. Numbers are the integers the client handles (api ids,
  verbosity levels); no arithmetic is done on them.
\<close>

datatype jval =
    JUndefined
  | JNull
  | JBool bool
  | JNum int
  | JStr string
  | JObj "(string \<times> jval) list"

text \<open>Property read \<open>o[k]\<close>: \<open>undefined\<close> on a missing key and on a non-object.\<close>

fun jget :: "jval \<Rightarrow> string \<Rightarrow> jval" where
  "jget (JObj kvs) k = (case map_of kvs k of Some v \<Rightarrow> v | None \<Rightarrow> JUndefined)"
| "jget _ k = JUndefined"

text \<open>\<open>delete o[k]\<close>.\<close>

fun jdelete :: "string \<Rightarrow> jval \<Rightarrow> jval" where
  "jdelete k (JObj kvs) = JObj (AList.delete k kvs)"
| "jdelete k v = v"

text \<open>JavaScript truthiness of a value (\<open>!v\<close> is \<open>\<not> truthy v\<close>).\<close>

fun truthy :: "jval \<Rightarrow> bool" where
  "truthy JUndefined = False"
| "truthy JNull = False"
| "truthy (JBool b) = b"
| "truthy (JNum n) = (n \<noteq> 0)"
| "truthy (JStr s) = (s \<noteq> [])"
| "truthy (JObj kvs) = True"

text \<open>
  \<open>jget\<close> is the read of a property of a value that is neither \<open>undefined\<close>
  nor \<open>null\<close>. On those two a read throws a TypeError; the handlers test for
  them with \<open>nullish\<close> before they read.
\<close>

definition nullish :: "jval \<Rightarrow> bool" where
  "nullish v = (v = JUndefined \<or> v = JNull)"

text \<open>
  Thrown values: \<open>Error(msg)\<close>, \<open>TypeError(msg)\<close>, the wrapper
  \<open>new TdlError(err, msg)\<close> of client.js, and a value thrown by a collaborator
  (the engine, a login callback).
\<close>

datatype exn =
    Error string
  | TypeError string
  | TdlError exn "string option"
  | Thrown jval

text \<open>What an event or a promise carries: a message, an exception, or nothing.\<close>

datatype payload = PJson jval | PExn exn | PNone

text \<open>The exception of a property read on \<open>undefined\<close> or \<open>null\<close>.\<close>

definition type_error :: exn where
  "type_error = TypeError ''Cannot read properties of undefined or null''"

text \<open>
  A promise is named by a number. \<open>Resolve v\<close> and \<open>Reject e\<close> are the two
  functions \<open>{ resolve, reject }\<close> of a promise executor, applied to a value.
\<close>

datatype settle = Resolve payload | Reject payload

text \<open>
  Everything the client does to the outside is appended to a trace:
  \<^item> \<open>Emit ev p\<close>: \<open>this._emitter.emit(ev, p)\<close>;
  \<^item> \<open>Fire n c\<close>: the resolve or reject function of promise \<open>n\<close> is called;
  \<^item> \<open>TdSend r\<close>: \<open>this._tdlib.send(client, deepRenameKey('_', '@type', r))\<close>;
  \<^item> \<open>TdExecute r\<close>, \<open>TdCreate\<close>, \<open>TdDestroy h\<close>: the other calls of the engine;
  \<^item> \<open>Prompt f args\<close>: the login callback \<open>f\<close> is called with \<open>args\<close>;
  \<^item> \<open>LoopStarted\<close>: \<open>this._loop()\<close> is launched.
\<close>

datatype effect =
    Emit string payload
  | Fire nat settle
  | TdSend jval
  | TdExecute jval
  | TdCreate
  | TdDestroy nat
  | Prompt string "jval list"
  | LoopStarted

section \<open>TdlDeferred\<close>

text \<open>
  \<open>class TdlDeferred\<close>: the fields \<open>_innerDefer\<close> (the promise whose
  \<open>{ resolve, reject }\<close> pair was registered, if any) and \<open>_done\<close>.
\<close>

record TdlDeferred =
  innerDefer :: "nat option"
  isDone :: bool

definition new_TdlDeferred :: TdlDeferred where
  "new_TdlDeferred = \<lparr> innerDefer = None, isDone = False \<rparr>"

definition isPending :: "TdlDeferred \<Rightarrow> bool" where
  "isPending d = (\<not> isDone d)"

definition isDeferSet :: "TdlDeferred \<Rightarrow> bool" where
  "isDeferSet d = (innerDefer d \<noteq> None)"

definition setDefer :: "TdlDeferred \<Rightarrow> nat \<Rightarrow> TdlDeferred" where
  "setDefer d p = d\<lparr> innerDefer := Some p \<rparr>"

text \<open>
  \<open>resolve\<close> and \<open>reject\<close> return the gate and the calls they made:
  \<open>if (this._done || !this._innerDefer) return\<close>, else set \<open>_done\<close> and call
  the registered function.
\<close>

definition deferred_resolve :: "TdlDeferred \<Rightarrow> payload \<Rightarrow> TdlDeferred \<times> effect list" where
  "deferred_resolve d result =
     (case innerDefer d of
        None \<Rightarrow> (d, [])
      | Some p \<Rightarrow>
          if isDone d then (d, [])
          else (d\<lparr> isDone := True \<rparr>, [Fire p (Resolve result)]))"

definition deferred_reject :: "TdlDeferred \<Rightarrow> payload \<Rightarrow> TdlDeferred \<times> effect list" where
  "deferred_reject d err =
     (case innerDefer d of
        None \<Rightarrow> (d, [])
      | Some p \<Rightarrow>
          if isDone d then (d, [])
          else (d\<lparr> isDone := True \<rparr>, [Fire p (Reject err)]))"

text \<open>One call of either kind, and a sequence of such calls on one gate.\<close>

fun deferred_call :: "TdlDeferred \<Rightarrow> settle \<Rightarrow> TdlDeferred \<times> effect list" where
  "deferred_call d (Resolve v) = deferred_resolve d v"
| "deferred_call d (Reject e) = deferred_reject d e"

fun deferred_calls :: "TdlDeferred \<Rightarrow> settle list \<Rightarrow> TdlDeferred \<times> effect list" where
  "deferred_calls d [] = (d, [])"
| "deferred_calls d (c # cs) =
     (case deferred_call d c of
        (d', fired) \<Rightarrow> (case deferred_calls d' cs of (d'', fired') \<Rightarrow> (d'', fired @ fired')))"

section \<open>The client\<close>

text \<open>
  Modelled from the spec: \<open>class Version\<close> of \<open>./version\<close> is not among the
  sources. An engine version is a dotted triple, and \<open>gte\<close> compares two of them
  place by place (the spec's comparison of EngineVersion with a fixed threshold).
\<close>

datatype version = Version nat nat nat

fun gte :: "version \<Rightarrow> version \<Rightarrow> bool" where
  "gte (Version a b c) (Version a' b' c') =
     (a > a' \<or> (a = a' \<and> (b > b' \<or> (b = b' \<and> c \<ge> c'))))"

definition TDLIB_1_8_6 :: version where
  "TDLIB_1_8_6 = Version 1 8 6"

definition TDLIB_DEFAULT :: version where
  "TDLIB_DEFAULT = Version 1 8 0"

definition TDL_MAGIC :: string where
  "TDL_MAGIC = ''6c47e6b71ea''"

text \<open>
  What client.js takes from modules that are not among the sources: \<open>resolve\<close> of
  Node's \<open>path\<close> and the constructor of \<open>Version\<close> (which may throw
  on a string it cannot read).
\<close>

record env =
  resolvePath :: "string \<Rightarrow> string"
  newVersion :: "jval \<Rightarrow> exn + version"

text \<open>\<open>StrictConfigType\<close>: the options after the defaults were merged in.\<close>

record Options =
  apiId :: jval
  apiHash :: jval
  databaseDirectory :: string
  filesDirectory :: string
  databaseEncryptionKey :: jval
  verbosityLevel :: jval
  receiveTimeout :: jval
  skipOldUpdates :: bool
  useTestDc :: bool
  useMutableRename :: bool
  useDefaultVerbosityLevel :: bool
  disableAuth :: bool
  tdlibParameters :: "(string \<times> jval) list"

text \<open>
  \<open>StrictLoginDetails\<close>: the kind of login and its callbacks. A callback answers
  with a value (\<open>Inr\<close>) or throws, or returns a promise that is rejected
  (\<open>Inl\<close>). \<open>getToken\<close> is read only when the kind is \<open>bot\<close>.
\<close>

datatype login_kind = LoginUser | LoginBot

record LoginDetails =
  login_kind :: login_kind
  getPhoneNumber :: "bool \<Rightarrow> exn + jval"
  getEmailAddress :: "exn + jval"
  getEmailCode :: "exn + jval"
  confirmOnAnotherDevice :: "jval \<Rightarrow> exn option"
  getAuthCode :: "bool \<Rightarrow> exn + jval"
  getPassword :: "jval \<Rightarrow> bool \<Rightarrow> exn + jval"
  getName :: "exn + jval"
  getToken :: "bool \<Rightarrow> exn + jval"

text \<open>
  The fields of \<open>class Client\<close>, under their names without the underscore.
  \<open>fetching\<close> is the \<open>Map\<close> from correlation ids to the promise of the
  pending request (in insertion order, one entry per key). Four fields are the
  model's own: \<open>nextPromise\<close> names the next promise that \<open>new Promise\<close>
  creates; \<open>loginListeners\<close> are the \<open>once('auth-needed')\<close> listeners that
  \<open>login\<close> registered, each as the login details it will store;
  \<open>authWaiting\<close> are the authorization states whose \<open>_handleAuth\<close> call is
  suspended in \<open>_waitLogin\<close>; \<open>trace\<close> is what the client did so far.
\<close>

record Client =
  options :: Options
  fetching :: "(string \<times> nat) list"
  client :: "nat option"
  initialized :: bool
  paused :: bool
  connectionState :: jval
  connectDefer :: TdlDeferred
  authNeeded :: bool
  loginDetails :: "LoginDetails option"
  loginDefer :: TdlDeferred
  version :: version
  nextPromise :: nat
  loginListeners :: "LoginDetails list"
  authWaiting :: "jval list"
  trace :: "effect list"

subsection \<open>The constructor\<close>

text \<open>\<open>options.tdlibParameters?.api_id\<close> and its like.\<close>

definition opt_chain :: "jval \<Rightarrow> string \<Rightarrow> jval" where
  "opt_chain v k = (if v = JUndefined \<or> v = JNull then JUndefined else jget v k)"

text \<open>
  \<open>new Client(tdlibInstance, options)\<close>: \<open>options\<close> is the object the caller
  passed, \<open>merged\<close> is \<open>mergeDeepRight(defaultOptions, options)\<close>. The result is
  the exception thrown or the new session, which has done nothing yet.
\<close>

definition new_Client :: "Options \<Rightarrow> jval \<Rightarrow> exn + Client" where
  "new_Client merged opts =
     (if \<not> truthy (jget opts ''apiId'') \<and>
         \<not> truthy (opt_chain (jget opts ''tdlibParameters'') ''api_id'')
      then Inl (TypeError ''Valid api_id must be provided.'')
      else if \<not> truthy (jget opts ''apiHash'') \<and>
         \<not> truthy (opt_chain (jget opts ''tdlibParameters'') ''api_hash'')
      then Inl (TypeError ''Valid api_hash must be provided.'')
      else Inr \<lparr> options = merged, fetching = [], client = None, initialized = False,
                 paused = False,
                 connectionState = JObj [(''_'', JStr ''connectionStateConnecting'')],
                 connectDefer = new_TdlDeferred, authNeeded = False, loginDetails = None,
                 loginDefer = new_TdlDeferred, version = TDLIB_DEFAULT,
                 nextPromise = 0, loginListeners = [], authWaiting = [], trace = [] \<rparr>)"

subsection \<open>Events, gates and sends\<close>

definition emit :: "Client \<Rightarrow> string \<Rightarrow> payload \<Rightarrow> Client" where
  "emit s ev p = s\<lparr> trace := trace s @ [Emit ev p] \<rparr>"

definition connectDefer_resolve :: "Client \<Rightarrow> payload \<Rightarrow> Client" where
  "connectDefer_resolve s v =
     (case deferred_resolve (connectDefer s) v of
        (d, fired) \<Rightarrow> s\<lparr> connectDefer := d, trace := trace s @ fired \<rparr>)"

definition connectDefer_reject :: "Client \<Rightarrow> payload \<Rightarrow> Client" where
  "connectDefer_reject s e =
     (case deferred_reject (connectDefer s) e of
        (d, fired) \<Rightarrow> s\<lparr> connectDefer := d, trace := trace s @ fired \<rparr>)"

definition loginDefer_resolve :: "Client \<Rightarrow> payload \<Rightarrow> Client" where
  "loginDefer_resolve s v =
     (case deferred_resolve (loginDefer s) v of
        (d, fired) \<Rightarrow> s\<lparr> loginDefer := d, trace := trace s @ fired \<rparr>)"

definition loginDefer_reject :: "Client \<Rightarrow> payload \<Rightarrow> Client" where
  "loginDefer_reject s e =
     (case deferred_reject (loginDefer s) e of
        (d, fired) \<Rightarrow> s\<lparr> loginDefer := d, trace := trace s @ fired \<rparr>)"

text \<open>
  \<open>_catchError\<close>: the gates that are pending are rejected; the error is emitted
  only when neither is.
\<close>

definition catchError :: "Client \<Rightarrow> payload \<Rightarrow> Client" where
  "catchError s err =
     (let c = isPending (connectDefer s); l = isPending (loginDefer s) in
      if \<not> c \<and> \<not> l then emit s ''error'' err
      else
        (let s1 = (if c then connectDefer_reject s err else s) in
         if l then loginDefer_reject s1 err else s1))"

definition rejectConnectAndLogin :: "Client \<Rightarrow> payload \<Rightarrow> Client" where
  "rejectConnectAndLogin s err = loginDefer_reject (connectDefer_reject s err) err"

text \<open>\<open>_send\<close> does nothing once the engine handle is gone.\<close>

definition send :: "Client \<Rightarrow> jval \<Rightarrow> Client" where
  "send s request =
     (case client s of
        None \<Rightarrow> s
      | Some h \<Rightarrow> s\<lparr> trace := trace s @ [TdSend request] \<rparr>)"

text \<open>\<open>o[k] = v\<close> on an object, and \<open>{ ...a, ...b }\<close>.\<close>

fun jset :: "string \<Rightarrow> jval \<Rightarrow> jval \<Rightarrow> jval" where
  "jset k v (JObj kvs) = JObj (AList.update k v kvs)"
| "jset k v w = w"

definition spread :: "(string \<times> jval) list \<Rightarrow> (string \<times> jval) list \<Rightarrow> (string \<times> jval) list" where
  "spread a b = fold (\<lambda>(k, v). AList.update k v) b a"

definition sendTdl :: "Client \<Rightarrow> jval \<Rightarrow> Client" where
  "sendTdl s request = send s (jset ''@extra'' (JStr TDL_MAGIC) request)"

subsection \<open>connect, login, invoke, destroy\<close>

text \<open>
  What the engine answers during \<open>_init\<close>: whether
  \<open>execute(null, setLogVerbosityLevel)\<close> throws, and the handle \<open>create()\<close>
  returns or the exception it throws.
\<close>

record engine_init =
  execute_throws :: "exn option"
  create_result :: "exn + nat"

definition init :: "Client \<Rightarrow> engine_init \<Rightarrow> Client" where
  "init s eng =
     (let s1 = (if \<not> useDefaultVerbosityLevel (options s)
                then s\<lparr> trace := trace s @
                       [TdExecute (JObj [(''@type'', JStr ''setLogVerbosityLevel''),
                          (''new_verbosity_level'', verbosityLevel (options s))])] \<rparr>
                else s);
          thrown = (if \<not> useDefaultVerbosityLevel (options s) then execute_throws eng else None)
      in case thrown of
           Some e \<Rightarrow> catchError s1 (PExn (TdlError e (Some ''Error while creating client'')))
         | None \<Rightarrow>
            (case create_result eng of
               Inl e \<Rightarrow> catchError (s1\<lparr> trace := trace s1 @ [TdCreate] \<rparr>)
                          (PExn (TdlError e (Some ''Error while creating client'')))
             | Inr h \<Rightarrow>
                 (let s2 = s1\<lparr> trace := trace s1 @ [TdCreate], client := Some h,
                               initialized := True \<rparr>;
                      s3 = (if disableAuth (options s2) then connectDefer_resolve s2 PNone else s2)
                  in s3\<lparr> trace := trace s3 @ [LoopStarted] \<rparr>)))"

text \<open>
  \<open>connect\<close> returns the promise it created. On an initialized session the
  promise is rejected and nothing else happens.
\<close>

definition connect :: "Client \<Rightarrow> engine_init \<Rightarrow> Client \<times> nat" where
  "connect s eng =
     (let p = nextPromise s; s0 = s\<lparr> nextPromise := Suc p \<rparr> in
      if initialized s0 then
        (s0\<lparr> trace := trace s0 @
            [Fire p (Reject (PExn (if client s0 \<noteq> None
               then Error ''The client is already initialized''
               else Error ''Cannot re-initialize a destroyed client'')))] \<rparr>, p)
      else (init (s0\<lparr> connectDefer := setDefer (connectDefer s0) p \<rparr>) eng, p))"

definition pause :: "Client \<Rightarrow> Client" where
  "pause s = (if \<not> paused s then s\<lparr> paused := True \<rparr> else s)"

definition resume :: "Client \<Rightarrow> Client" where
  "resume s = (if paused s then emit (s\<lparr> paused := False \<rparr>) ''_resume'' PNone else s)"

text \<open>
  \<open>invoke\<close>: \<open>uid\<close> is what \<open>uuidv4()\<close> returned. \<open>Map.prototype.set\<close>
  does not throw, so the \<open>catch\<close> around it is never entered.
\<close>

definition invoke :: "Client \<Rightarrow> string \<Rightarrow> jval \<Rightarrow> Client \<times> nat" where
  "invoke s uid request =
     (let p = nextPromise s;
          s1 = s\<lparr> nextPromise := Suc p, fetching := AList.update uid p (fetching s) \<rparr>
      in (send s1 (jset ''@extra'' (JStr uid) request), p))"

text \<open>
  \<open>destroy\<close>, when \<open>this._tdlib.destroy\<close> returns, as the engine's contract
  says it does.
\<close>

definition destroy :: "Client \<Rightarrow> Client" where
  "destroy s =
     (case client s of
        None \<Rightarrow> s
      | Some h \<Rightarrow>
          emit (resume (s\<lparr> trace := trace s @ [TdDestroy h], client := None \<rparr>))
            ''destroy'' PNone)"

text \<open>
  \<open>destroy\<close> with what \<open>this._tdlib.destroy\<close> does, to return or to throw.
  The method has no \<open>try\<close>: an exception of the engine leaves it, before the
  handle is cleared and before anything is emitted. Without a handle the engine is
  not called.
\<close>

definition destroy_call :: "Client \<Rightarrow> exn option \<Rightarrow> Client \<times> exn option" where
  "destroy_call s thrown =
     (case client s of
        None \<Rightarrow> (s, None)
      | Some h \<Rightarrow>
          (case thrown of
             Some e \<Rightarrow> (s\<lparr> trace := trace s @ [TdDestroy h] \<rparr>, Some e)
           | None \<Rightarrow> (destroy s, None)))"

subsection \<open>The authorization flow\<close>

text \<open>
  \<open>_authHasNeeded\<close>. Emitting \<open>auth-needed\<close> runs the listeners that
  \<open>login\<close> registered with \<open>once\<close>, in order; each stores its login details.
  \<open>invariant\<close> throws its message when the login details are still missing.
\<close>

definition authHasNeeded :: "Client \<Rightarrow> Client \<times> (exn + LoginDetails)" where
  "authHasNeeded s =
     (if authNeeded s then
        (case loginDetails s of
           None \<Rightarrow> (s, Inl (Error ''_authHasNeeded: (_authNeeded true) loginDetails should be set''))
         | Some ld \<Rightarrow> (s, Inr ld))
      else
        (let s1 = emit (s\<lparr> authNeeded := True \<rparr>) ''auth-needed'' PNone;
             s2 = s1\<lparr> loginDetails := (if loginListeners s1 = [] then loginDetails s1
                                         else Some (last (loginListeners s1))),
                       loginListeners := [] \<rparr>
         in case loginDetails s2 of
              None \<Rightarrow> (s2, Inl (Error ''_authHasNeeded: (_authNeeded false) loginDetails should be set''))
            | Some ld \<Rightarrow> (s2, Inr ld)))"

text \<open>
  A login callback is called and awaited, and its value is sent in the request that
  \<open>mk\<close> builds; an exception of the callback leaves the handler.
\<close>

definition ask_and_send ::
  "Client \<Rightarrow> string \<Rightarrow> jval list \<Rightarrow> exn + jval \<Rightarrow> (jval \<Rightarrow> jval) \<Rightarrow> Client \<times> exn option" where
  "ask_and_send s f args answer mk =
     (let s1 = s\<lparr> trace := trace s @ [Prompt f args] \<rparr> in
      case answer of
        Inl e \<Rightarrow> (s1, Some e)
      | Inr v \<Rightarrow> (sendTdl s1 (mk v), None))"

text \<open>
  \<open>const loginDetails = this._authHasNeeded()\<close> at the head of a case: the
  exception of the invariant leaves the handler, otherwise the case goes on with
  the login details.
\<close>

definition with_login ::
  "Client \<Rightarrow> (Client \<Rightarrow> LoginDetails \<Rightarrow> Client \<times> exn option) \<Rightarrow> Client \<times> exn option" where
  "with_login s k =
     (case authHasNeeded s of
        (s1, Inl e) \<Rightarrow> (s1, Some e)
      | (s1, Inr ld) \<Rightarrow> k s1 ld)"

text \<open>The two shapes of the handshake request.\<close>

definition setTdlibParameters_flat :: "env \<Rightarrow> Options \<Rightarrow> jval" where
  "setTdlibParameters_flat ev opts =
     JObj (spread
       [(''_'', JStr ''setTdlibParameters''),
        (''database_directory'', JStr (resolvePath ev (databaseDirectory opts))),
        (''files_directory'', JStr (resolvePath ev (filesDirectory opts))),
        (''api_id'', apiId opts),
        (''api_hash'', apiHash opts),
        (''use_test_dc'', JBool (useTestDc opts)),
        (''database_encryption_key'', databaseEncryptionKey opts)]
       (tdlibParameters opts))"

definition setTdlibParameters_nested :: "env \<Rightarrow> Options \<Rightarrow> jval" where
  "setTdlibParameters_nested ev opts =
     JObj [(''_'', JStr ''setTdlibParameters''),
           (''parameters'', JObj (AList.update ''_'' (JStr ''tdlibParameters'')
              (spread
                [(''database_directory'', JStr (resolvePath ev (databaseDirectory opts))),
                 (''files_directory'', JStr (resolvePath ev (filesDirectory opts))),
                 (''api_id'', apiId opts),
                 (''api_hash'', apiHash opts),
                 (''use_test_dc'', JBool (useTestDc opts))]
                (tdlibParameters opts))))]"

text \<open>
  \<open>_handleAuth\<close> after \<open>await this._waitLogin()\<close>: the second \<open>switch\<close>, on
  the authorization state that the first \<open>switch\<close> has read. The result is the
  session and the exception that left the function, if one did.
\<close>

definition handleAuth_login :: "Client \<Rightarrow> jval \<Rightarrow> Client \<times> exn option" where
  "handleAuth_login s st =
     (let t = jget st ''_'' in
      if t = JStr ''authorizationStateWaitPhoneNumber'' then
        with_login s (\<lambda>s1 ld.
             (case login_kind ld of
                LoginUser \<Rightarrow>
                  ask_and_send s1 ''getPhoneNumber'' [JBool False] (getPhoneNumber ld False)
                    (\<lambda>v. JObj [(''_'', JStr ''setAuthenticationPhoneNumber''), (''phone_number'', v)])
              | LoginBot \<Rightarrow>
                  ask_and_send s1 ''getToken'' [JBool False] (getToken ld False)
                    (\<lambda>v. JObj [(''_'', JStr ''checkAuthenticationBotToken''), (''token'', v)])))
      else if t = JStr ''authorizationStateWaitEmailAddress'' then
        with_login s (\<lambda>s1 ld.
             if login_kind ld \<noteq> LoginUser then (s1, None)
             else ask_and_send s1 ''getEmailAddress'' [] (getEmailAddress ld)
                    (\<lambda>v. JObj [(''_'', JStr ''setAuthenticationEmailAddress''), (''email_address'', v)]))
      else if t = JStr ''authorizationStateWaitEmailCode'' then
        with_login s (\<lambda>s1 ld.
             if login_kind ld \<noteq> LoginUser then (s1, None)
             else ask_and_send s1 ''getEmailCode'' [] (getEmailCode ld)
                    (\<lambda>v. JObj [(''_'', JStr ''checkAuthenticationEmailCode''),
                       (''code'', JObj [(''_'', JStr ''emailAddressAuthenticationCode''), (''code'', v)])]))
      else if t = JStr ''authorizationStateWaitOtherDeviceConfirmation'' then
        with_login s (\<lambda>s1 ld.
             if login_kind ld \<noteq> LoginUser then (s1, None)
             else (s1\<lparr> trace := trace s1 @ [Prompt ''confirmOnAnotherDevice'' [jget st ''link'']] \<rparr>,
                   confirmOnAnotherDevice ld (jget st ''link'')))
      else if t = JStr ''authorizationStateWaitCode'' then
        with_login s (\<lambda>s1 ld.
             if login_kind ld \<noteq> LoginUser then (s1, None)
             else ask_and_send s1 ''getAuthCode'' [JBool False] (getAuthCode ld False)
                    (\<lambda>v. JObj [(''_'', JStr ''checkAuthenticationCode''), (''code'', v)]))
      else if t = JStr ''authorizationStateWaitRegistration'' then
        with_login s (\<lambda>s1 ld.
             if login_kind ld \<noteq> LoginUser then (s1, None)
             else
               (let s2 = s1\<lparr> trace := trace s1 @ [Prompt ''getName'' []] \<rparr> in
                case getName ld of
                  Inl e \<Rightarrow> (s2, Some e)
                | Inr r \<Rightarrow>
                    if r = JUndefined \<or> r = JNull
                    then (s2, Some (TypeError ''Cannot destructure the result of getName''))
                    else (sendTdl s2 (JObj [(''_'', JStr ''registerUser''),
                            (''first_name'', jget r ''firstName''),
                            (''last_name'', if jget r ''lastName'' = JUndefined then JStr []
                                            else jget r ''lastName'')]), None)))
      else if t = JStr ''authorizationStateWaitPassword'' then
        with_login s (\<lambda>s1 ld.
             if login_kind ld \<noteq> LoginUser then (s1, None)
             else ask_and_send s1 ''getPassword'' [jget st ''password_hint'', JBool False]
                    (getPassword ld (jget st ''password_hint'') False)
                    (\<lambda>v. JObj [(''_'', JStr ''checkAuthenticationPassword''), (''password'', v)]))
      else if t = JStr ''authorizationStateReady'' then
        (loginDefer_resolve s PNone, None)
      else (s, None))"

text \<open>
  \<open>await this._waitLogin()\<close> and what follows it. When \<open>login\<close> has
  registered its resolver the function goes on; otherwise the call is suspended until
  \<open>login\<close> emits \<open>_login\<close>. An awaited login callback is taken to have
  answered before the next message of the engine is routed.
\<close>

definition waitLogin :: "Client \<Rightarrow> jval \<Rightarrow> Client \<times> exn option" where
  "waitLogin s st =
     (if isDeferSet (loginDefer s) then handleAuth_login s st
      else (s\<lparr> authWaiting := authWaiting s @ [st] \<rparr>, None))"

text \<open>
  \<open>_handleAuth\<close>: the read of \<open>update.authorization_state._\<close>, which throws
  when the update or its authorization state is \<open>undefined\<close> or \<open>null\<close>,
  the first \<open>switch\<close>, then \<open>_waitLogin\<close>.
\<close>

definition handleAuth :: "env \<Rightarrow> Client \<Rightarrow> jval \<Rightarrow> Client \<times> exn option" where
  "handleAuth ev s update =
     (let st = jget update ''authorization_state''; t = jget st ''_'' in
      if nullish update \<or> nullish st then (s, Some type_error)
      else if t = JStr ''authorizationStateWaitTdlibParameters'' then
        (if gte (version s) TDLIB_1_8_6 then
           (if jget (JObj (tdlibParameters (options s))) ''_'' \<noteq> JUndefined \<and>
               jget (JObj (tdlibParameters (options s))) ''_'' \<noteq> JNull
            then (s, Some (Error ''tdlibParameters must not contain the _ property''))
            else (connectDefer_resolve (sendTdl s (setTdlibParameters_flat ev (options s))) PNone,
                  None))
         else (sendTdl s (setTdlibParameters_nested ev (options s)), None))
      else if t = JStr ''authorizationStateWaitEncryptionKey'' then
        (connectDefer_resolve
           (sendTdl s (JObj [(''_'', JStr ''checkDatabaseEncryptionKey''),
                             (''encryption_key'', databaseEncryptionKey (options s))])) PNone,
         None)
      else if t = JStr ''authorizationStateClosed'' then
        (destroy (rejectConnectAndLogin s (PExn (Error ''Received authorizationStateClosed''))),
         None)
      else
        waitLogin (if t = JStr ''authorizationStateReady'' \<and> \<not> authNeeded s
                   then emit s ''auth-not-needed'' PNone else s) st)"

text \<open>
  An exception of a \<open>_handleAuth\<close> call goes to its \<open>.catch\<close>, one in a
  turn of the receive loop to the \<open>catch\<close> of the loop: both call
  \<open>this._catchError(new TdlError(e))\<close>.
\<close>

definition caught :: "Client \<times> exn option \<Rightarrow> Client" where
  "caught r = (case r of (s, None) \<Rightarrow> s | (s, Some e) \<Rightarrow> catchError s (PExn (TdlError e None)))"

text \<open>
  \<open>login\<close>: \<open>ld\<close> is \<open>mergeDeepRight(defaultLoginDetails, getLoginDetails())\<close>,
  what the listener on \<open>auth-needed\<close> will store. Emitting \<open>_login\<close> wakes the
  suspended \<open>_handleAuth\<close> calls, oldest first.
\<close>

definition login :: "Client \<Rightarrow> LoginDetails \<Rightarrow> Client \<times> nat" where
  "login s ld =
     (let p = nextPromise s;
          s1 = s\<lparr> loginListeners := loginListeners s @ [ld], nextPromise := Suc p,
                   loginDefer := setDefer (loginDefer s) p \<rparr>;
          s2 = emit s1 ''_login'' PNone
      in (fold (\<lambda>st s'. caught (handleAuth_login s' st)) (authWaiting s2)
            (s2\<lparr> authWaiting := [] \<rparr>), p))"

subsection \<open>Routing a message\<close>

text \<open>\<open>this._fetching.get(id)\<close> and \<open>this._fetching.delete(id)\<close>: the keys are strings.\<close>

definition fetching_get :: "Client \<Rightarrow> jval \<Rightarrow> nat option" where
  "fetching_get s i = (case i of JStr k \<Rightarrow> map_of (fetching s) k | _ \<Rightarrow> None)"

definition fetching_delete :: "Client \<Rightarrow> jval \<Rightarrow> Client" where
  "fetching_delete s i =
     (case i of JStr k \<Rightarrow> s\<lparr> fetching := AList.delete k (fetching s) \<rparr> | _ \<Rightarrow> s)"

text \<open>
  \<open>_emitErrWithoutExtra\<close>, \<open>_handleUserError\<close> and \<open>_handleBotError\<close> are
  called by \<open>_handleError\<close> only, with the error it has read from.
\<close>

definition emitErrWithoutExtra :: "Client \<Rightarrow> jval \<Rightarrow> Client" where
  "emitErrWithoutExtra s err = catchError s (PJson (jdelete ''@extra'' err))"

definition handleUserError :: "Client \<Rightarrow> jval \<Rightarrow> LoginDetails \<Rightarrow> Client \<times> exn option" where
  "handleUserError s err ld =
     (let m = jget err ''message'' in
      if m = JStr ''PHONE_CODE_EMPTY'' \<or> m = JStr ''PHONE_CODE_INVALID'' then
        ask_and_send s ''getAuthCode'' [JBool True] (getAuthCode ld True)
          (\<lambda>v. JObj [(''_'', JStr ''checkAuthenticationCode''), (''code'', v)])
      else if m = JStr ''PHONE_NUMBER_INVALID'' then
        ask_and_send s ''getPhoneNumber'' [JBool True] (getPhoneNumber ld True)
          (\<lambda>v. JObj [(''_'', JStr ''setAuthenticationPhoneNumber''), (''phone_number'', v)])
      else if m = JStr ''PASSWORD_HASH_INVALID'' then
        ask_and_send s ''getPassword'' [JStr [], JBool True] (getPassword ld (JStr []) True)
          (\<lambda>v. JObj [(''_'', JStr ''checkAuthenticationPassword''), (''password'', v)])
      else (emitErrWithoutExtra s err, None))"

definition handleBotError :: "Client \<Rightarrow> jval \<Rightarrow> LoginDetails \<Rightarrow> Client \<times> exn option" where
  "handleBotError s err ld =
     (if jget err ''message'' = JStr ''ACCESS_TOKEN_INVALID'' then
        ask_and_send s ''getToken'' [JBool True] (getToken ld True)
          (\<lambda>v. JObj [(''_'', JStr ''checkAuthenticationBotToken''), (''token'', v)])
      else (emitErrWithoutExtra s err, None))"

definition handleError :: "Client \<Rightarrow> jval \<Rightarrow> Client \<times> exn option" where
  "handleError s err =
     (if nullish err then (s, Some type_error)
      else
       (let i = jget err ''@extra'' in
        case fetching_get s i of
          Some p \<Rightarrow>
            (fetching_delete
               (s\<lparr> trace := trace s @ [Fire p (Reject (PJson (jdelete ''@extra'' err)))] \<rparr>) i,
             None)
        | None \<Rightarrow>
            if i = JStr TDL_MAGIC then
              (case loginDetails s of
                 None \<Rightarrow> (emitErrWithoutExtra s err, None)
               | Some ld \<Rightarrow>
                   (case login_kind ld of
                      LoginUser \<Rightarrow> handleUserError s err ld
                    | LoginBot \<Rightarrow> handleBotError s err ld))
            else (emit s ''error'' (PJson err), None)))"

text \<open>
  \<open>_handleUpdate\<close>. Three reads can throw before anything is published: of
  \<open>update._\<close>; of \<open>update.authorization_state._\<close>, the argument of the
  \<open>debug\<close> call that precedes the \<open>emit\<close>; and of \<open>this._connectionState._\<close>,
  which is made only when \<open>skipOldUpdates\<close> is set. The read of
  \<open>update.value._\<close> comes after the \<open>emit\<close>, and only for the option
  \<open>version\<close>.
\<close>

definition handleUpdate :: "env \<Rightarrow> Client \<Rightarrow> jval \<Rightarrow> Client \<times> exn option" where
  "handleUpdate ev s update =
     (if nullish update then (s, Some type_error)
      else
       (let t = jget update ''_'' in
        if t = JStr ''updateOption'' then
          (let s1 = emit s ''update'' (PJson update) in
           if jget update ''name'' = JStr ''version'' then
             (if nullish (jget update ''value'') then (s1, Some type_error)
              else if jget (jget update ''value'') ''_'' = JStr ''optionValueString''
              then (case newVersion ev (jget (jget update ''value'') ''value'') of
                      Inl e \<Rightarrow> (s1, Some e)
                    | Inr v \<Rightarrow> (s1\<lparr> version := v \<rparr>, None))
              else (s1, None))
           else (s1, None))
        else if t = JStr ''updateConnectionState'' then
          (emit (s\<lparr> connectionState := jget update ''state'' \<rparr>) ''update'' (PJson update), None)
        else if t = JStr ''updateAuthorizationState'' then
          (if nullish (jget update ''authorization_state'') then (s, Some type_error)
           else
            (let s1 = emit s ''update'' (PJson update) in
             if \<not> disableAuth (options s1) then (caught (handleAuth ev s1 update), None)
             else (s1, None)))
        else
          (if skipOldUpdates (options s) then
             (if nullish (connectionState s) then (s, Some type_error)
              else if jget (connectionState s) ''_'' = JStr ''connectionStateUpdating''
              then (s, None)
              else (emit s ''update'' (PJson update), None))
           else (emit s ''update'' (PJson update), None))))"

text \<open>
  \<open>_handleResponse\<close>, the router: \<open>response\<close> is emitted first, then the
  message is read.
\<close>

definition handleResponse :: "env \<Rightarrow> Client \<Rightarrow> jval \<Rightarrow> Client \<times> exn option" where
  "handleResponse ev s res =
     (let s1 = emit s ''response'' (PJson res) in
      if nullish res then (s1, Some type_error)
      else if jget res ''_'' = JStr ''error'' then handleError s1 res
      else
        (let i = jget res ''@extra'' in
         case fetching_get s1 i of
           Some p \<Rightarrow>
             (fetching_delete
                (s1\<lparr> trace := trace s1 @ [Fire p (Resolve (PJson (jdelete ''@extra'' res)))] \<rparr>) i,
              None)
         | None \<Rightarrow>
             if i \<noteq> JStr TDL_MAGIC then handleUpdate ev s1 res
             else (s1, None)))"

subsection \<open>The receive loop\<close>

text \<open>
  What \<open>_receive\<close> gives in one turn of the loop: nothing within the timeout, a
  message (with \<open>@type\<close> renamed to \<open>_\<close>), or an exception.
\<close>

datatype received = Nothing | Message jval | Raised exn

text \<open>
  What a caller of the session may do while the loop is suspended in
  \<open>await this._receive()\<close>.
\<close>

datatype caller = Destroy | Pause | Resume | Invoke string jval

fun perform :: "caller \<Rightarrow> Client \<Rightarrow> Client" where
  "perform Destroy s = destroy s"
| "perform Pause s = pause s"
| "perform Resume s = resume s"
| "perform (Invoke uid request) s = fst (invoke s uid request)"

text \<open>
  \<open>_loop\<close>, over the turns to come: for each turn, what the callers do while the
  receive of that turn is awaited, and what the receive then gives. The pause flag
  and the handle are tested at the head of the turn only: a message that the receive
  gives is routed whatever the callers did in between. The loop ends when the handle
  is gone at the head of a turn; it is suspended while the session is paused, and
  the model stops there (as it does when the turns run out).
\<close>

fun loop :: "env \<Rightarrow> Client \<Rightarrow> (caller list \<times> received) list \<Rightarrow> Client" where
  "loop ev s [] = s"
| "loop ev s ((calls, r) # ts) =
     (if paused s then s
      else if client s = None then s
      else
        (let s1 = fold perform calls s in
         case r of
           Nothing \<Rightarrow> loop ev s1 ts
         | Raised e \<Rightarrow> loop ev (catchError s1 (PExn (TdlError e None))) ts
         | Message m \<Rightarrow>
             if truthy m then loop ev (caught (handleResponse ev s1 m)) ts
             else loop ev s1 ts))"

section \<open>Concrete sessions\<close>

text \<open>
  The options of \<open>examples/\<close>: an api id and an api hash over the defaults of
  \<open>defaultOptions\<close>; the engine creates its client and hands out handle 7.
\<close>

definition example_options :: Options where
  "example_options =
     \<lparr> apiId = JNum 2222, apiHash = JStr ''YOUR_API_HASH'',
       databaseDirectory = ''_td_database'', filesDirectory = ''_td_files'',
       databaseEncryptionKey = JStr [], verbosityLevel = JNum 2, receiveTimeout = JNum 10,
       skipOldUpdates = False, useTestDc = False, useMutableRename = False,
       useDefaultVerbosityLevel = False, disableAuth = False,
       tdlibParameters =
         [(''use_message_database'', JBool True), (''use_secret_chats'', JBool False),
          (''system_language_code'', JStr ''en''), (''application_version'', JStr ''1.0''),
          (''device_model'', JStr ''Unknown device''), (''system_version'', JStr ''Unknown''),
          (''enable_storage_optimizer'', JBool True)] \<rparr>"

definition example_config :: jval where
  "example_config = JObj [(''apiId'', JNum 2222), (''apiHash'', JStr ''YOUR_API_HASH'')]"

definition fresh_session :: "Options \<Rightarrow> Client" where
  "fresh_session opts =
     \<lparr> options = opts, fetching = [], client = None, initialized = False,
       paused = False, connectionState = JObj [(''_'', JStr ''connectionStateConnecting'')],
       connectDefer = new_TdlDeferred, authNeeded = False, loginDetails = None,
       loginDefer = new_TdlDeferred, version = TDLIB_DEFAULT,
       nextPromise = 0, loginListeners = [], authWaiting = [], trace = [] \<rparr>"

definition engine_ok :: engine_init where
  "engine_ok = \<lparr> execute_throws = None, create_result = Inr 7 \<rparr>"

definition engine_broken :: engine_init where
  "engine_broken = \<lparr> execute_throws = None, create_result = Inl (Thrown (JStr ''no engine'')) \<rparr>"

definition example_env :: env where
  "example_env = \<lparr> resolvePath = (\<lambda>p. ''/app/'' @ p),
                    newVersion = (\<lambda>v. if v = JStr ''1.8.14'' then Inr (Version 1 8 14)
                                       else if v = JStr ''1.8.0'' then Inr (Version 1 8 0)
                                       else Inl (Error ''Invalid TDLib version'')) \<rparr>"

section \<open>Reading a trace\<close>

text \<open>
  The payloads published under one event name, the calls of promise functions, and
  the requests handed to the engine, each in the order of the trace.
\<close>

fun emitted :: "string \<Rightarrow> effect \<Rightarrow> payload list" where
  "emitted ev (Emit ev' p) = (if ev' = ev then [p] else [])"
| "emitted ev _ = []"

definition published :: "string \<Rightarrow> effect list \<Rightarrow> payload list" where
  "published ev t = concat (map (emitted ev) t)"

fun fire_of :: "effect \<Rightarrow> (nat \<times> settle) list" where
  "fire_of (Fire p c) = [(p, c)]"
| "fire_of _ = []"

definition fired :: "effect list \<Rightarrow> (nat \<times> settle) list" where
  "fired t = concat (map fire_of t)"

fun send_of :: "effect \<Rightarrow> jval list" where
  "send_of (TdSend r) = [r]"
| "send_of _ = []"

definition sent :: "effect list \<Rightarrow> jval list" where
  "sent t = concat (map send_of t)"

text \<open>The example session after a successful \<open>connect\<close>, and a request.\<close>

definition connected_session :: Client where
  "connected_session = fst (connect (fresh_session example_options) engine_ok)"

definition getMe :: jval where
  "getMe = JObj [(''_'', JStr ''getMe'')]"

text \<open>
  What the authorization flow and the error path leave alone: the options, the stored
  connection state, the pending requests and the \<open>update\<close> events published so far.
\<close>

definition frame :: "Client \<Rightarrow> Client \<Rightarrow> bool" where
  "frame s s' =
     (options s' = options s \<and> connectionState s' = connectionState s \<and>
      fetching s' = fetching s \<and>
      published ''update'' (trace s') = published ''update'' (trace s))"

text \<open>
  The messages that are fed to the router one after the other, an exception going
  to the \<open>catch\<close> of the loop.
\<close>

fun route_all :: "env \<Rightarrow> Client \<Rightarrow> jval list \<Rightarrow> Client" where
  "route_all ev s [] = s"
| "route_all ev s (m # ms) = route_all ev (caught (handleResponse ev s m)) ms"

text \<open>
  A message of the engine is an object; an authorization-state update carries its
  authorization state and a connection-state update its state, as the types of the
  engine's updates say.
\<close>

definition well_formed :: "jval \<Rightarrow> bool" where
  "well_formed m =
     (\<not> nullish m \<and>
      (jget m ''_'' = JStr ''updateAuthorizationState''
         \<longrightarrow> \<not> nullish (jget m ''authorization_state'')) \<and>
      (jget m ''_'' = JStr ''updateConnectionState'' \<longrightarrow> \<not> nullish (jget m ''state'')))"

text \<open>
  The claim about updates, in the spec's words. A message whose correlation id
  matches a pending request settles that request and is no update; an error is no
  update; a reply under the sentinel is no update. Of the updates, the three
  privileged kinds are always published, a connection-state change is stored, and
  any other update is dropped exactly when suppression is on and the stored state is
  \<open>connectionStateUpdating\<close>. \<open>pend\<close> are the ids of the pending requests.
\<close>

definition privileged :: "jval \<Rightarrow> bool" where
  "privileged u =
     (jget u ''_'' = JStr ''updateOption'' \<or> jget u ''_'' = JStr ''updateConnectionState'' \<or>
      jget u ''_'' = JStr ''updateAuthorizationState'')"

definition awaited :: "string list \<Rightarrow> jval \<Rightarrow> bool" where
  "awaited pend m = (case jget m ''@extra'' of JStr k \<Rightarrow> k \<in> set pend | _ \<Rightarrow> False)"

definition settled :: "string list \<Rightarrow> jval \<Rightarrow> string list" where
  "settled pend m = (case jget m ''@extra'' of JStr k \<Rightarrow> removeAll k pend | _ \<Rightarrow> pend)"

fun spec_published :: "bool \<Rightarrow> jval \<Rightarrow> string list \<Rightarrow> jval list \<Rightarrow> jval list" where
  "spec_published skip cs pend [] = []"
| "spec_published skip cs pend (m # ms) =
     (if awaited pend m then spec_published skip cs (settled pend m) ms
      else if jget m ''_'' = JStr ''error'' then spec_published skip cs pend ms
      else if jget m ''@extra'' = JStr TDL_MAGIC then spec_published skip cs pend ms
      else if privileged m then
        m # spec_published skip
              (if jget m ''_'' = JStr ''updateConnectionState'' then jget m ''state'' else cs)
              pend ms
      else if skip \<and> jget cs ''_'' = JStr ''connectionStateUpdating''
      then spec_published skip cs pend ms
      else m # spec_published skip cs pend ms)"

text \<open>Updates of the engine, and sessions that are on their way.\<close>

definition upd_connection :: "string \<Rightarrow> jval" where
  "upd_connection st =
     JObj [(''_'', JStr ''updateConnectionState''), (''state'', JObj [(''_'', JStr st)])]"

definition upd_auth :: "string \<Rightarrow> jval" where
  "upd_auth st =
     JObj [(''_'', JStr ''updateAuthorizationState''),
           (''authorization_state'', JObj [(''_'', JStr st)])]"

definition upd_version :: "string \<Rightarrow> jval" where
  "upd_version v =
     JObj [(''_'', JStr ''updateOption''), (''name'', JStr ''version''),
           (''value'', JObj [(''_'', JStr ''optionValueString''), (''value'', JStr v)])]"

definition upd_message :: "int \<Rightarrow> jval" where
  "upd_message n = JObj [(''_'', JStr ''updateNewMessage''), (''id'', JNum n)]"

definition skipping_session :: Client where
  "skipping_session = connected_session\<lparr> options := example_options\<lparr> skipOldUpdates := True \<rparr> \<rparr>"

definition modern_session :: Client where
  "modern_session = connected_session\<lparr> version := Version 1 8 14 \<rparr>"

text \<open>A session whose \<open>tdlibParameters\<close> carry the \<open>_\<close> property.\<close>

definition tagged_session :: Client where
  "tagged_session =
     modern_session\<lparr> options := example_options
       \<lparr> tdlibParameters := [(''_'', JStr ''tdlibParameters''), (''use_test_dc'', JBool False)] \<rparr> \<rparr>"

text \<open>
  The table of authentication errors, in the spec's words: for a kind of login and an
  error message, the callback to ask again (with its arguments, the retry flag set),
  and the type and the field of the request that carries the answer.
\<close>

definition spec_retry_table ::
  "login_kind \<Rightarrow> jval \<Rightarrow> (string \<times> jval list \<times> string \<times> string) option" where
  "spec_retry_table kind m =
     (case kind of
        LoginUser \<Rightarrow>
          if m = JStr ''PHONE_CODE_EMPTY'' \<or> m = JStr ''PHONE_CODE_INVALID''
          then Some (''getAuthCode'', [JBool True], ''checkAuthenticationCode'', ''code'')
          else if m = JStr ''PHONE_NUMBER_INVALID''
          then Some (''getPhoneNumber'', [JBool True], ''setAuthenticationPhoneNumber'',
                     ''phone_number'')
          else if m = JStr ''PASSWORD_HASH_INVALID''
          then Some (''getPassword'', [JStr [], JBool True], ''checkAuthenticationPassword'',
                     ''password'')
          else None
      | LoginBot \<Rightarrow>
          if m = JStr ''ACCESS_TOKEN_INVALID''
          then Some (''getToken'', [JBool True], ''checkAuthenticationBotToken'', ''token'')
          else None)"

text \<open>What the callback of that name answers when it is asked again.\<close>

definition retry_answer :: "LoginDetails \<Rightarrow> string \<Rightarrow> exn + jval" where
  "retry_answer ld f =
     (if f = ''getAuthCode'' then getAuthCode ld True
      else if f = ''getPhoneNumber'' then getPhoneNumber ld True
      else if f = ''getPassword'' then getPassword ld (JStr []) True
      else getToken ld True)"

text \<open>
  A user and a bot that answer every prompt, and the example session after
  \<open>login\<close> and the first messages of a modern engine: the version, the request
  for parameters and the request for a phone number.
\<close>

definition example_user :: LoginDetails where
  "example_user =
     \<lparr> login_kind = LoginUser,
       getPhoneNumber = (\<lambda>retry. Inr (JStr (if retry then ''+15550002'' else ''+15550001''))),
       getEmailAddress = Inr (JStr ''user@example.org''),
       getEmailCode = Inr (JStr ''000000''),
       confirmOnAnotherDevice = (\<lambda>link. None),
       getAuthCode = (\<lambda>retry. Inr (JStr (if retry then ''22222'' else ''11111''))),
       getPassword = (\<lambda>hint retry. Inr (JStr ''secret'')),
       getName = Inr (JObj [(''firstName'', JStr ''John'')]),
       getToken = (\<lambda>retry. Inl (TypeError ''loginDetails.getToken is not a function'')) \<rparr>"

definition example_bot :: LoginDetails where
  "example_bot = example_user\<lparr> login_kind := LoginBot,
                               getToken := (\<lambda>retry. Inr (JStr ''123:token'')) \<rparr>"

definition logging_in :: "LoginDetails \<Rightarrow> Client" where
  "logging_in ld =
     loop example_env (fst (login connected_session ld))
       [([], Message (upd_version ''1.8.14'')),
        ([], Message (upd_auth ''authorizationStateWaitTdlibParameters'')),
        ([], Message (upd_auth ''authorizationStateWaitPhoneNumber''))]"

definition auth_error :: "string \<Rightarrow> jval" where
  "auth_error msg =
     JObj [(''_'', JStr ''error''), (''code'', JNum 400), (''message'', JStr msg),
           (''@extra'', JStr TDL_MAGIC)]"

text \<open>A session that awaits the reply to one request, a reply and an error for it.\<close>

definition awaiting_session :: Client where
  "awaiting_session = fst (invoke connected_session ''id1'' getMe)"

definition user_reply :: jval where
  "user_reply = JObj [(''_'', JStr ''user''), (''id'', JNum 1), (''@extra'', JStr ''id1'')]"

definition request_error :: jval where
  "request_error =
     JObj [(''_'', JStr ''error''), (''code'', JNum 429),
           (''message'', JStr ''Too Many Requests''), (''@extra'', JStr ''id1'')]"

section \<open>Properties of values\<close>

lemma nullish_simps [simp]:
  "nullish JUndefined" "nullish JNull" "\<not> nullish (JBool b)" "\<not> nullish (JNum n)"
  "\<not> nullish (JStr x)" "\<not> nullish (JObj kvs)"
  by (simp_all add: nullish_def)

lemma jget_nullish [simp]: "nullish v \<Longrightarrow> jget v k = JUndefined"
  by (auto simp: nullish_def)

lemma jget_JStr_not_nullish: "jget v k = JStr x \<Longrightarrow> \<not> nullish v"
  by (cases v) simp_all

section \<open>Properties of TdlDeferred\<close>

lemma deferred_call_done: "isDone d \<Longrightarrow> deferred_call d c = (d, [])"
  by (cases c) (simp_all add: deferred_resolve_def deferred_reject_def split: option.splits)

lemma deferred_calls_done: "isDone d \<Longrightarrow> deferred_calls d cs = (d, [])"
  by (induction cs) (simp_all add: deferred_call_done)

lemma deferred_call_unset: "innerDefer d = None \<Longrightarrow> deferred_call d c = (d, [])"
  by (cases c) (simp_all add: deferred_resolve_def deferred_reject_def)

lemma deferred_calls_unset: "innerDefer d = None \<Longrightarrow> deferred_calls d cs = (d, [])"
  by (induction cs) (simp_all add: deferred_call_unset)

lemma deferred_call_first:
  "innerDefer d = Some p \<Longrightarrow> \<not> isDone d \<Longrightarrow>
   deferred_call d c = (d\<lparr> isDone := True \<rparr>, [Fire p c])"
  by (cases c) (simp_all add: deferred_resolve_def deferred_reject_def)

text \<open>
  C3. On a gate with a resolver attached, a sequence of resolve/reject calls calls the
  resolver once, with the first call's value, when the gate was not done, and never
  when it was; after the first call every further call of either kind returns the
  gate unchanged and calls nothing.
\<close>

theorem deferred_first_call_wins:
  assumes "innerDefer d = Some p"
  shows "deferred_calls d (c # cs) =
           (if isDone d then (d, []) else (d\<lparr> isDone := True \<rparr>, [Fire p c])) \<and>
         deferred_calls (fst (deferred_call d c)) cs = (fst (deferred_call d c), [])"
proof (cases "isDone d")
  case True
  then show ?thesis
    using deferred_calls_done [of d "c # cs"]
    by (simp add: deferred_call_done deferred_calls_done)
next
  case False
  have "deferred_calls (d\<lparr> isDone := True \<rparr>) cs = (d\<lparr> isDone := True \<rparr>, [])"
    by (rule deferred_calls_done) simp
  with False assms show ?thesis by (simp add: deferred_call_first)
qed

theorem deferred_first_call_wins_witness:
  "deferred_calls (setDefer new_TdlDeferred 0)
     [Resolve (PJson (JNum 1)), Reject (PExn (Error ''late'')), Resolve (PJson (JNum 2))]
   = (\<lparr> innerDefer = Some 0, isDone = True \<rparr>, [Fire 0 (Resolve (PJson (JNum 1)))])"
  using deferred_first_call_wins [of "setDefer new_TdlDeferred 0" 0
      "Resolve (PJson (JNum 1))" "[Reject (PExn (Error ''late'')), Resolve (PJson (JNum 2))]"]
  by (simp add: setDefer_def new_TdlDeferred_def)

text \<open>
  C4 as stated fails: a resolve on a gate with no resolver is dropped. The gate is
  still not done, registering a resolver afterwards calls nothing, and a later reject
  is what the resolver receives.
\<close>

theorem deferred_unset_outcome_lost:
  "deferred_resolve new_TdlDeferred (PJson (JNum 1)) = (new_TdlDeferred, []) \<and>
   \<not> isDone (setDefer (fst (deferred_resolve new_TdlDeferred (PJson (JNum 1)))) 0) \<and>
   deferred_reject (setDefer (fst (deferred_resolve new_TdlDeferred (PJson (JNum 1)))) 0)
       (PExn (Error ''e''))
     = (\<lparr> innerDefer = Some 0, isDone = True \<rparr>, [Fire 0 (Reject (PExn (Error ''e'')))])"
  by (simp add: deferred_resolve_def deferred_reject_def new_TdlDeferred_def setDefer_def)

text \<open>
  C4, amended. While no resolver is registered, resolve and reject are no-ops: the
  gate is unchanged (so still pending) and nothing is called. A resolver registered
  afterwards is called once, by the first resolve or reject made after the
  registration, with that call's value.
\<close>

theorem deferred_unset_calls_dropped:
  assumes "innerDefer d = None" and "\<not> isDone d"
  shows "deferred_calls d cs = (d, []) \<and>
         deferred_calls (setDefer (fst (deferred_calls d cs)) p) (c # cs') =
           (\<lparr> innerDefer = Some p, isDone = True \<rparr>, [Fire p c])"
proof -
  have first: "deferred_calls d cs = (d, [])"
    using assms(1) by (rule deferred_calls_unset)
  have "deferred_calls (setDefer d p) (c # cs') =
          ((setDefer d p)\<lparr> isDone := True \<rparr>, [Fire p c])"
    using assms(2)
    by (simp add: deferred_call_first deferred_calls_done setDefer_def)
  moreover have "(setDefer d p)\<lparr> isDone := True \<rparr> = \<lparr> innerDefer = Some p, isDone = True \<rparr>"
    by (simp add: setDefer_def)
  ultimately show ?thesis
    using first by simp
qed

theorem deferred_unset_calls_dropped_witness:
  "deferred_calls new_TdlDeferred [Resolve (PJson (JNum 1))] = (new_TdlDeferred, []) \<and>
   deferred_calls
       (setDefer (fst (deferred_calls new_TdlDeferred [Resolve (PJson (JNum 1))])) 0)
       [Reject (PExn (Error ''e'')), Resolve (PJson (JNum 2))]
     = (\<lparr> innerDefer = Some 0, isDone = True \<rparr>, [Fire 0 (Reject (PExn (Error ''e'')))])"
  using deferred_unset_calls_dropped [of new_TdlDeferred "[Resolve (PJson (JNum 1))]" 0
      "Reject (PExn (Error ''e''))" "[Resolve (PJson (JNum 2))]"]
  by (simp add: new_TdlDeferred_def setDefer_def deferred_resolve_def deferred_reject_def)


section \<open>Properties of the constructor\<close>

lemma new_Client_example: "new_Client example_options example_config = Inr (fresh_session example_options)"
  by (simp add: new_Client_def example_config_def fresh_session_def opt_chain_def)

text \<open>
  C10. When both \<open>options.apiId\<close> and \<open>options.tdlibParameters?.api_id\<close> are
  missing (or falsy), the constructor throws the TypeError for the api id; when both
  \<open>options.apiHash\<close> and \<open>options.tdlibParameters?.api_hash\<close> are, it throws a
  TypeError as well. Whenever a session is returned, an api id and an api hash were
  given. The constructor makes no call of the engine: a thrown exception is all that
  comes back.
\<close>

theorem new_Client_credentials:
  "(\<not> truthy (jget opts ''apiId'') \<and>
    \<not> truthy (opt_chain (jget opts ''tdlibParameters'') ''api_id'')
      \<longrightarrow> new_Client merged opts = Inl (TypeError ''Valid api_id must be provided.'')) \<and>
   (\<not> truthy (jget opts ''apiHash'') \<and>
    \<not> truthy (opt_chain (jget opts ''tdlibParameters'') ''api_hash'')
      \<longrightarrow> (\<exists>msg. new_Client merged opts = Inl (TypeError msg))) \<and>
   (\<forall>c. new_Client merged opts = Inr c \<longrightarrow>
      (truthy (jget opts ''apiId'') \<or> truthy (opt_chain (jget opts ''tdlibParameters'') ''api_id'')) \<and>
      (truthy (jget opts ''apiHash'') \<or> truthy (opt_chain (jget opts ''tdlibParameters'') ''api_hash'')) \<and>
      trace c = [] \<and> client c = None)"
  by (auto simp: new_Client_def split: if_splits)

theorem new_Client_credentials_witness:
  "new_Client example_options (JObj [(''apiHash'', JStr ''YOUR_API_HASH'')])
     = Inl (TypeError ''Valid api_id must be provided.'') \<and>
   (\<exists>msg. new_Client example_options
       (JObj [(''apiId'', JNum 2222), (''tdlibParameters'', JObj [(''use_test_dc'', JBool True)])])
     = Inl (TypeError msg)) \<and>
   trace (fresh_session example_options) = []"
  using new_Client_credentials [of "JObj [(''apiHash'', JStr ''YOUR_API_HASH'')]" example_options]
    new_Client_credentials [of
      "JObj [(''apiId'', JNum 2222), (''tdlibParameters'', JObj [(''use_test_dc'', JBool True)])]"
      example_options]
    new_Client_credentials [of example_config example_options]
  by (simp add: opt_chain_def new_Client_example fresh_session_def)


section \<open>Properties of traces\<close>

lemma published_simps [simp]:
  "published ev [] = []"
  "published ev (t @ t') = published ev t @ published ev t'"
  "published ev (Emit ev' p # t) = (if ev' = ev then p # published ev t else published ev t)"
  "published ev (Fire q c # t) = published ev t"
  "published ev (TdSend r # t) = published ev t"
  "published ev (TdExecute r # t) = published ev t"
  "published ev (TdCreate # t) = published ev t"
  "published ev (TdDestroy h # t) = published ev t"
  "published ev (Prompt f args # t) = published ev t"
  "published ev (LoopStarted # t) = published ev t"
  by (simp_all add: published_def)

lemma fired_simps [simp]:
  "fired [] = []"
  "fired (t @ t') = fired t @ fired t'"
  "fired (Emit ev' p # t) = fired t"
  "fired (Fire q c # t) = (q, c) # fired t"
  "fired (TdSend r # t) = fired t"
  "fired (TdExecute r # t) = fired t"
  "fired (TdCreate # t) = fired t"
  "fired (TdDestroy h # t) = fired t"
  "fired (Prompt f args # t) = fired t"
  "fired (LoopStarted # t) = fired t"
  by (simp_all add: fired_def)

lemma sent_simps [simp]:
  "sent [] = []"
  "sent (t @ t') = sent t @ sent t'"
  "sent (Emit ev' p # t) = sent t"
  "sent (Fire q c # t) = sent t"
  "sent (TdSend r # t) = r # sent t"
  "sent (TdExecute r # t) = sent t"
  "sent (TdCreate # t) = sent t"
  "sent (TdDestroy h # t) = sent t"
  "sent (Prompt f args # t) = sent t"
  "sent (LoopStarted # t) = sent t"
  by (simp_all add: sent_def)

section \<open>Properties of connect, invoke and destroy\<close>

lemma connected_session_eq:
  "connected_session =
     (fresh_session example_options)
       \<lparr> client := Some 7, initialized := True,
         connectDefer := \<lparr> innerDefer = Some 0, isDone = False \<rparr>, nextPromise := 1,
         trace := [TdExecute (JObj [(''@type'', JStr ''setLogVerbosityLevel''),
                     (''new_verbosity_level'', JNum 2)]), TdCreate, LoopStarted] \<rparr>"
  by (simp add: connected_session_def connect_def init_def fresh_session_def example_options_def
      engine_ok_def setDefer_def new_TdlDeferred_def Let_def)

text \<open>
  C6 as stated fails: a second \<open>invoke\<close> under the id of an outstanding request
  does not fail. The entry of the id now holds the second promise, both requests went
  to the engine, no promise function was called and no error was published.
\<close>

theorem invoke_replaces_entry:
  "map_of (fetching (fst (invoke connected_session ''id1'' getMe))) ''id1'' = Some 1 \<and>
   fetching (fst (invoke (fst (invoke connected_session ''id1'' getMe)) ''id1'' getMe))
     = [(''id1'', 2)] \<and>
   sent (trace (fst (invoke (fst (invoke connected_session ''id1'' getMe)) ''id1'' getMe)))
     = [JObj [(''_'', JStr ''getMe''), (''@extra'', JStr ''id1'')],
        JObj [(''_'', JStr ''getMe''), (''@extra'', JStr ''id1'')]] \<and>
   fired (trace (fst (invoke (fst (invoke connected_session ''id1'' getMe)) ''id1'' getMe))) = [] \<and>
   published ''error''
     (trace (fst (invoke (fst (invoke connected_session ''id1'' getMe)) ''id1'' getMe))) = []"
  by (simp add: connected_session_eq invoke_def send_def fresh_session_def getMe_def Let_def)

text \<open>
  C6, amended. Registering a request stores its new promise under the id whether or
  not the id had an outstanding request: an earlier entry is replaced without any
  failure (the request is handed to the engine when the handle is live, and nothing
  else is done). The entries of all other ids stay, and the map keeps holding at most
  one entry per id.
\<close>

theorem invoke_registers:
  "snd (invoke s uid request) = nextPromise s \<and>
   map_of (fetching (fst (invoke s uid request))) uid = Some (nextPromise s) \<and>
   (\<forall>k. k \<noteq> uid \<longrightarrow>
      map_of (fetching (fst (invoke s uid request))) k = map_of (fetching s) k) \<and>
   trace (fst (invoke s uid request)) =
     trace s @ (case client s of None \<Rightarrow> []
                | Some h \<Rightarrow> [TdSend (jset ''@extra'' (JStr uid) request)]) \<and>
   (distinct (map fst (fetching s)) \<longrightarrow>
      distinct (map fst (fetching (fst (invoke s uid request)))))"
  by (simp add: invoke_def send_def Let_def update_conv' distinct_update split: option.splits)

theorem invoke_registers_witness:
  "map_of (fetching (fst (invoke (fst (invoke connected_session ''id1'' getMe)) ''id1'' getMe)))
      ''id1'' = Some 2 \<and>
   map_of (fetching (fst (invoke (fst (invoke connected_session ''id1'' getMe)) ''id2'' getMe)))
      ''id1'' = Some 1 \<and>
   distinct (map fst
      (fetching (fst (invoke (fst (invoke connected_session ''id1'' getMe)) ''id1'' getMe))))"
  using invoke_registers [of "fst (invoke connected_session ''id1'' getMe)" "''id1''" getMe]
    invoke_registers [of "fst (invoke connected_session ''id1'' getMe)" "''id2''" getMe]
    invoke_registers [of connected_session "''id1''" getMe]
  by (simp add: connected_session_eq fresh_session_def invoke_def send_def Let_def)


lemma catchError_initialized: "initialized (catchError s e) = initialized s"
  by (simp add: catchError_def Let_def emit_def connectDefer_reject_def loginDefer_reject_def
      deferred_reject_def split: option.splits)

text \<open>
  C8 as stated fails for a second \<open>connect\<close> that follows one whose engine
  creation threw: the session is not initialized then, the second call creates the
  engine again and starts the loop, and its promise (number 1) is not rejected.
\<close>

theorem connect_again_after_failed_init:
  "fired (trace (fst (connect (fresh_session example_options) engine_broken)))
     = [(0, Reject (PExn (TdlError (Thrown (JStr ''no engine''))
                            (Some ''Error while creating client''))))] \<and>
   \<not> initialized (fst (connect (fresh_session example_options) engine_broken)) \<and>
   trace (fst (connect (fst (connect (fresh_session example_options) engine_broken)) engine_ok))
     = trace (fst (connect (fresh_session example_options) engine_broken)) @
       [TdExecute (JObj [(''@type'', JStr ''setLogVerbosityLevel''),
                         (''new_verbosity_level'', JNum 2)]), TdCreate, LoopStarted] \<and>
   client (fst (connect (fst (connect (fresh_session example_options) engine_broken)) engine_ok))
     = Some 7"
  by (simp add: connect_def init_def catchError_def connectDefer_reject_def
      loginDefer_reject_def deferred_reject_def isPending_def setDefer_def new_TdlDeferred_def
      fresh_session_def example_options_def engine_broken_def engine_ok_def Let_def)

text \<open>
  C8, amended. On an initialized session \<open>connect\<close> only rejects the promise it
  returns: with the second-initialization error while the engine handle is there,
  with the cannot-re-initialize error when it is gone; no call of the engine is made,
  no loop is started and no field but the promise counter changes. A session is
  initialized once a \<open>connect\<close> has created the engine, and it stays so, without
  its handle, after \<open>destroy\<close>. On a session that is not initialized
  \<open>connect\<close> registers its promise with the connect gate and runs \<open>_init\<close>;
  when the engine fails there, the session stays uninitialized.
\<close>

theorem connect_initialized:
  "(initialized s \<longrightarrow>
      connect s eng =
        (s\<lparr> nextPromise := Suc (nextPromise s),
            trace := trace s @
              [Fire (nextPromise s) (Reject (PExn (Error
                 (if client s \<noteq> None then ''The client is already initialized''
                  else ''Cannot re-initialize a destroyed client''))))] \<rparr>,
         nextPromise s)) \<and>
   (\<not> initialized s \<and> (useDefaultVerbosityLevel (options s) \<or> execute_throws eng = None) \<and>
    create_result eng = Inr h \<longrightarrow>
      initialized (fst (connect s eng)) \<and> client (fst (connect s eng)) = Some h) \<and>
   (initialized s \<longrightarrow> initialized (destroy s) \<and> client (destroy s) = None) \<and>
   (\<not> initialized s \<longrightarrow>
      connect s eng =
        (init (s\<lparr> nextPromise := Suc (nextPromise s),
                  connectDefer := setDefer (connectDefer s) (nextPromise s) \<rparr>) eng,
         nextPromise s)) \<and>
   (\<not> initialized s \<and>
    ((\<not> useDefaultVerbosityLevel (options s) \<and> execute_throws eng \<noteq> None) \<or>
     isl (create_result eng)) \<longrightarrow>
      \<not> initialized (fst (connect s eng)))"
proof (intro conjI impI)
  assume "initialized s"
  then show "connect s eng =
        (s\<lparr> nextPromise := Suc (nextPromise s),
            trace := trace s @
              [Fire (nextPromise s) (Reject (PExn (Error
                 (if client s \<noteq> None then ''The client is already initialized''
                  else ''Cannot re-initialize a destroyed client''))))] \<rparr>,
         nextPromise s)"
    by (simp add: connect_def Let_def)
next
  assume a: "\<not> initialized s \<and> (useDefaultVerbosityLevel (options s) \<or> execute_throws eng = None) \<and>
    create_result eng = Inr h"
  then show "initialized (fst (connect s eng))"
    by (auto simp: connect_def init_def Let_def connectDefer_resolve_def split: prod.splits)
  from a show "client (fst (connect s eng)) = Some h"
    by (auto simp: connect_def init_def Let_def connectDefer_resolve_def split: prod.splits)
next
  assume "initialized s"
  then show "initialized (destroy s)"
    by (simp add: destroy_def resume_def emit_def split: option.splits)
next
  show "client (destroy s) = None"
    by (simp add: destroy_def resume_def emit_def split: option.splits)
next
  assume "\<not> initialized s"
  then show "connect s eng =
        (init (s\<lparr> nextPromise := Suc (nextPromise s),
                  connectDefer := setDefer (connectDefer s) (nextPromise s) \<rparr>) eng,
         nextPromise s)"
    by (simp add: connect_def Let_def)
next
  assume "\<not> initialized s \<and>
    ((\<not> useDefaultVerbosityLevel (options s) \<and> execute_throws eng \<noteq> None) \<or>
     isl (create_result eng))"
  then show "\<not> initialized (fst (connect s eng))"
    by (auto simp: connect_def init_def Let_def catchError_initialized isl_def
        split: option.splits sum.splits)
qed

theorem connect_initialized_witness:
  "fired (trace (fst (connect connected_session engine_ok)))
     = [(1, Reject (PExn (Error ''The client is already initialized'')))] \<and>
   fired (trace (fst (connect (destroy connected_session) engine_ok)))
     = [(1, Reject (PExn (Error ''Cannot re-initialize a destroyed client'')))] \<and>
   trace (fst (connect (destroy connected_session) engine_ok))
     = trace (destroy connected_session) @
       [Fire 1 (Reject (PExn (Error ''Cannot re-initialize a destroyed client'')))] \<and>
   initialized connected_session \<and> client connected_session = Some 7 \<and>
   \<not> initialized (fst (connect (fresh_session example_options) engine_broken))"
proof -
  have st: "initialized connected_session" "client connected_session = Some 7"
    "initialized (destroy connected_session)" "client (destroy connected_session) = None"
    "nextPromise connected_session = 1" "nextPromise (destroy connected_session) = 1"
    "fired (trace connected_session) = []" "fired (trace (destroy connected_session)) = []"
    "\<not> initialized (fresh_session example_options)"
    "isl (create_result engine_broken)"
    by (simp_all add: connected_session_eq fresh_session_def destroy_def resume_def emit_def
        engine_broken_def)
  have a: "fired (trace (fst (connect connected_session engine_ok)))
     = [(1, Reject (PExn (Error ''The client is already initialized'')))]"
    using connect_initialized [of connected_session engine_ok 7, THEN conjunct1] st
    by simp
  have b: "trace (fst (connect (destroy connected_session) engine_ok))
     = trace (destroy connected_session) @
       [Fire 1 (Reject (PExn (Error ''Cannot re-initialize a destroyed client'')))]"
    using connect_initialized [of "destroy connected_session" engine_ok 7, THEN conjunct1] st
    by simp
  have c: "\<not> initialized (fst (connect (fresh_session example_options) engine_broken))"
    using connect_initialized [of "fresh_session example_options" engine_broken 7,
        THEN conjunct2, THEN conjunct2, THEN conjunct2, THEN conjunct2] st(9,10)
    by blast
  from a b c st show ?thesis
    by simp
qed

section \<open>What the authorization flow leaves alone\<close>

lemma frame_refl [simp]: "frame s s"
  by (simp add: frame_def)

lemma frame_trans: "frame s s1 \<Longrightarrow> frame s1 s2 \<Longrightarrow> frame s s2"
  by (simp add: frame_def)

lemma published_deferred [simp]:
  "published ev (snd (deferred_resolve d v)) = []"
  "published ev (snd (deferred_reject d v)) = []"
  by (simp_all add: deferred_resolve_def deferred_reject_def split: option.splits)

lemma frame_emit: "ev \<noteq> ''update'' \<Longrightarrow> frame s (emit s ev p)"
  by (simp add: frame_def emit_def)

lemma frame_gates [simp]:
  "frame s (connectDefer_resolve s v)"
  "frame s (connectDefer_reject s v)"
  "frame s (loginDefer_resolve s v)"
  "frame s (loginDefer_reject s v)"
  by (simp_all add: frame_def connectDefer_resolve_def connectDefer_reject_def
      loginDefer_resolve_def loginDefer_reject_def deferred_resolve_def deferred_reject_def
      split: option.splits)

lemma frame_catchError [simp]: "frame s (catchError s err)"
  by (auto simp: catchError_def Let_def frame_emit intro: frame_trans [OF frame_gates(2) frame_gates(4)])

lemma frame_rejectConnectAndLogin [simp]: "frame s (rejectConnectAndLogin s err)"
  unfolding rejectConnectAndLogin_def by (rule frame_trans [OF frame_gates(2) frame_gates(4)])

lemma frame_send [simp]: "frame s (send s r)" "frame s (sendTdl s r)"
  by (simp_all add: frame_def send_def sendTdl_def split: option.splits)

lemma frame_destroy [simp]: "frame s (destroy s)"
  by (simp add: frame_def destroy_def resume_def emit_def split: option.splits)

lemma frame_authHasNeeded [simp]: "frame s (fst (authHasNeeded s))"
  by (simp add: frame_def authHasNeeded_def emit_def Let_def split: option.splits)

lemma frame_ask_and_send [simp]: "frame s (fst (ask_and_send s f args answer mk))"
  by (simp add: ask_and_send_def Let_def frame_def sendTdl_def send_def split: sum.splits option.splits)

lemma frame_with_login:
  assumes "\<And>s1 ld. frame s1 (fst (k s1 ld))"
  shows "frame s (fst (with_login s k))"
proof (cases "authHasNeeded s")
  case (Pair s1 r)
  then have "frame s s1" using frame_authHasNeeded [of s] by simp
  with Pair assms [of s1] show ?thesis
    by (cases r) (auto simp: with_login_def intro: frame_trans)
qed

lemma frame_prompt [simp]: "frame s (s\<lparr> trace := trace s @ [Prompt f args] \<rparr>)"
  by (simp add: frame_def)

lemma frame_sendTdl_after:
  "frame s s1 \<Longrightarrow> frame s (sendTdl s1 r)"
  by (rule frame_trans [OF _ frame_send(2)])

lemma frame_handleAuth_login [simp]: "frame s (fst (handleAuth_login s st))"
  unfolding handleAuth_login_def Let_def
  by (auto intro!: frame_with_login frame_sendTdl_after split: login_kind.splits sum.splits)


lemma frame_waitLogin [simp]: "frame s (fst (waitLogin s st))"
  by (simp add: waitLogin_def) (simp add: frame_def)

lemma frame_handleAuth_steps [simp]:
  "frame s (connectDefer_resolve (sendTdl s r) v)"
  "frame s (destroy (rejectConnectAndLogin s e))"
  "frame s (fst (waitLogin (emit s ''auth-not-needed'' PNone) st))"
  by (rule frame_trans [OF frame_send(2) frame_gates(1)],
      rule frame_trans [OF frame_rejectConnectAndLogin frame_destroy],
      rule frame_trans [OF frame_emit frame_waitLogin]) simp

lemma frame_handleAuth [simp]: "frame s (fst (handleAuth ev s update))"
  by (simp add: handleAuth_def Let_def)

lemma frame_caught: "frame s (fst r) \<Longrightarrow> frame s (caught r)"
  by (cases r) (auto simp: caught_def intro: frame_trans [OF _ frame_catchError] split: option.splits)

section \<open>Properties of the router\<close>

lemma frame_auth_errors [simp]:
  "frame s (emitErrWithoutExtra s err)"
  "frame s (fst (handleUserError s err ld))"
  "frame s (fst (handleBotError s err ld))"
  by (simp_all add: emitErrWithoutExtra_def handleUserError_def handleBotError_def Let_def)

lemma handleError_unmatched:
  assumes "fetching_get s (jget err ''@extra'') = None"
  shows "frame s (fst (handleError s err))"
  using assms
  by (simp add: handleError_def Let_def frame_emit split: option.splits login_kind.splits)

lemma fetching_get_emit: "fetching_get (emit s ev p) i = fetching_get s i"
  by (cases i) (simp_all add: fetching_get_def emit_def)

lemma handleResponse_unmatched:
  assumes "fetching_get s (jget m ''@extra'') = None" and "\<not> nullish m"
  shows "handleResponse ev s m =
           (if jget m ''_'' = JStr ''error'' then handleError (emit s ''response'' (PJson m)) m
            else if jget m ''@extra'' \<noteq> JStr TDL_MAGIC
            then handleUpdate ev (emit s ''response'' (PJson m)) m
            else (emit s ''response'' (PJson m), None))"
  using assms by (simp add: handleResponse_def Let_def fetching_get_emit)

lemma handleResponse_matched:
  assumes "map_of (fetching s) k = Some p" and "jget m ''@extra'' = JStr k"
  shows "handleResponse ev s m =
       (s\<lparr> trace := trace s @
            [Emit ''response'' (PJson m),
             Fire p ((if jget m ''_'' = JStr ''error'' then Reject else Resolve)
                       (PJson (jdelete ''@extra'' m)))],
           fetching := AList.delete k (fetching s) \<rparr>, None)"
  using assms jget_JStr_not_nullish [OF assms(2)]
  by (simp add: handleResponse_def handleError_def fetching_get_def fetching_delete_def
      emit_def Let_def)

lemma handleUpdate_frame:
  "options (fst (handleUpdate ev s u)) = options s"
  "fetching (fst (handleUpdate ev s u)) = fetching s"
  "connectionState (fst (handleUpdate ev s u)) =
     (if \<not> nullish u \<and> jget u ''_'' = JStr ''updateConnectionState'' then jget u ''state''
      else connectionState s)"
proof -
  have "frame (emit s ''update'' (PJson u)) (caught (handleAuth ev (emit s ''update'' (PJson u)) u))"
    by (rule frame_caught [OF frame_handleAuth])
  then have auth: "options (caught (handleAuth ev (emit s ''update'' (PJson u)) u)) = options s"
    "fetching (caught (handleAuth ev (emit s ''update'' (PJson u)) u)) = fetching s"
    "connectionState (caught (handleAuth ev (emit s ''update'' (PJson u)) u)) = connectionState s"
    by (simp_all add: frame_def emit_def)
  show "options (fst (handleUpdate ev s u)) = options s"
    using auth(1) by (simp add: handleUpdate_def Let_def emit_def split: sum.splits)
  show "fetching (fst (handleUpdate ev s u)) = fetching s"
    using auth(2) by (simp add: handleUpdate_def Let_def emit_def split: sum.splits)
  show "connectionState (fst (handleUpdate ev s u)) =
     (if \<not> nullish u \<and> jget u ''_'' = JStr ''updateConnectionState'' then jget u ''state''
      else connectionState s)"
    using auth(3) by (simp add: handleUpdate_def Let_def emit_def split: sum.splits)
qed

lemma handleUpdate_published:
  assumes "well_formed u" and "\<not> nullish (connectionState s)"
  shows "published ''update'' (trace (fst (handleUpdate ev s u))) =
     published ''update'' (trace s) @
       (if privileged u then [PJson u]
        else if skipOldUpdates (options s) \<and>
                jget (connectionState s) ''_'' = JStr ''connectionStateUpdating'' then []
        else [PJson u])"
proof -
  have "published ''update'' (trace (caught (handleAuth ev (emit s ''update'' (PJson u)) u)))
          = published ''update'' (trace s) @ [PJson u]"
    using frame_caught [OF frame_handleAuth, of "emit s ''update'' (PJson u)" ev u]
    by (simp add: frame_def emit_def)
  then show ?thesis
    using assms
    by (simp add: handleUpdate_def well_formed_def privileged_def Let_def emit_def
        split: sum.splits)
qed

lemma handleUpdate_fired:
  "jget u ''_'' \<noteq> JStr ''updateAuthorizationState'' \<Longrightarrow>
   fired (trace (fst (handleUpdate ev s u))) = fired (trace s)"
  by (simp add: handleUpdate_def Let_def emit_def split: sum.splits)

lemma caught_frame: "frame (fst r) (caught r)"
  by (rule frame_caught) simp

lemma keys_delete: "map fst (AList.delete k al) = removeAll k (map fst al)"
  by (induction al) auto

lemma awaited_iff:
  "awaited (map fst (fetching s)) m = (fetching_get s (jget m ''@extra'') \<noteq> None)"
  by (cases "jget m ''@extra''")
    (auto simp: awaited_def fetching_get_def map_of_eq_None_iff image_iff)

text \<open>What one routed message does to the options, the pending ids, the stored state
  and the published updates.\<close>

lemma route_step:
  assumes "well_formed m" and "\<not> nullish (connectionState s)"
  shows "options (caught (handleResponse ev s m)) = options s"
    and "map fst (fetching (caught (handleResponse ev s m))) =
          (if awaited (map fst (fetching s)) m then settled (map fst (fetching s)) m
           else map fst (fetching s))"
    and "connectionState (caught (handleResponse ev s m)) =
          (if \<not> awaited (map fst (fetching s)) m \<and> jget m ''_'' \<noteq> JStr ''error'' \<and>
              jget m ''@extra'' \<noteq> JStr TDL_MAGIC \<and> jget m ''_'' = JStr ''updateConnectionState''
           then jget m ''state'' else connectionState s)"
    and "published ''update'' (trace (caught (handleResponse ev s m))) =
          published ''update'' (trace s) @
            (if awaited (map fst (fetching s)) m then []
             else if jget m ''_'' = JStr ''error'' then []
             else if jget m ''@extra'' = JStr TDL_MAGIC then []
             else if privileged m then [PJson m]
             else if skipOldUpdates (options s) \<and>
                     jget (connectionState s) ''_'' = JStr ''connectionStateUpdating'' then []
             else [PJson m])"
proof -
  let ?r = "handleResponse ev s m"
  let ?e = "emit s ''response'' (PJson m)"
  have obj: "\<not> nullish m"
    using assms(1) by (simp add: well_formed_def)
  have fr: "frame (fst ?r) (caught ?r)"
    by (rule caught_frame)
  have e: "options ?e = options s" "fetching ?e = fetching s"
    "connectionState ?e = connectionState s"
    "published ''update'' (trace ?e) = published ''update'' (trace s)"
    by (simp_all add: emit_def)
  have all: "options (fst ?r) = options s \<and>
      map fst (fetching (fst ?r)) =
          (if awaited (map fst (fetching s)) m then settled (map fst (fetching s)) m
           else map fst (fetching s)) \<and>
      connectionState (fst ?r) =
          (if \<not> awaited (map fst (fetching s)) m \<and> jget m ''_'' \<noteq> JStr ''error'' \<and>
              jget m ''@extra'' \<noteq> JStr TDL_MAGIC \<and> jget m ''_'' = JStr ''updateConnectionState''
           then jget m ''state'' else connectionState s) \<and>
      published ''update'' (trace (fst ?r)) =
          published ''update'' (trace s) @
            (if awaited (map fst (fetching s)) m then []
             else if jget m ''_'' = JStr ''error'' then []
             else if jget m ''@extra'' = JStr TDL_MAGIC then []
             else if privileged m then [PJson m]
             else if skipOldUpdates (options s) \<and>
                     jget (connectionState s) ''_'' = JStr ''connectionStateUpdating'' then []
             else [PJson m])"
  proof (cases "fetching_get s (jget m ''@extra'')")
    case (Some p)
    then obtain k where k: "jget m ''@extra'' = JStr k" "map_of (fetching s) k = Some p"
      by (cases "jget m ''@extra''") (simp_all add: fetching_get_def)
    have aw: "awaited (map fst (fetching s)) m"
      using Some by (simp add: awaited_iff)
    show ?thesis
      using aw k(1)
      by (simp add: handleResponse_matched [OF k(2) k(1)] settled_def keys_delete)
  next
    case None
    then have aw: "\<not> awaited (map fst (fetching s)) m"
      by (simp add: awaited_iff)
    note r = handleResponse_unmatched [OF None obj, of ev]
    show ?thesis
    proof (cases "jget m ''_'' = JStr ''error''")
      case True
      have "frame ?e (fst (handleError ?e m))"
        using None by (intro handleError_unmatched) (simp add: fetching_get_emit)
      then show ?thesis
        using aw True e by (simp add: r frame_def)
    next
      case False
      show ?thesis
      proof (cases "jget m ''@extra'' = JStr TDL_MAGIC")
        case True
        then show ?thesis
          using aw False e by (simp add: r)
      next
        case magic: False
        have wf: "\<not> nullish (connectionState ?e)"
          using assms(2) by (simp add: e)
        show ?thesis
          using aw False magic obj e
          by (simp add: r handleUpdate_frame handleUpdate_published [OF assms(1) wf])
      qed
    qed
  qed
  show "options (caught ?r) = options s"
    using fr all by (simp add: frame_def)
  show "map fst (fetching (caught ?r)) =
          (if awaited (map fst (fetching s)) m then settled (map fst (fetching s)) m
           else map fst (fetching s))"
    using fr all by (simp add: frame_def)
  show "connectionState (caught ?r) =
          (if \<not> awaited (map fst (fetching s)) m \<and> jget m ''_'' \<noteq> JStr ''error'' \<and>
              jget m ''@extra'' \<noteq> JStr TDL_MAGIC \<and> jget m ''_'' = JStr ''updateConnectionState''
           then jget m ''state'' else connectionState s)"
    using fr all by (simp add: frame_def)
  show "published ''update'' (trace (caught ?r)) =
          published ''update'' (trace s) @
            (if awaited (map fst (fetching s)) m then []
             else if jget m ''_'' = JStr ''error'' then []
             else if jget m ''@extra'' = JStr TDL_MAGIC then []
             else if privileged m then [PJson m]
             else if skipOldUpdates (options s) \<and>
                     jget (connectionState s) ''_'' = JStr ''connectionStateUpdating'' then []
             else [PJson m])"
    using fr all by (simp add: frame_def)
qed

text \<open>
  C2. For every session whose stored connection state is there, and every sequence
  of well-formed messages fed to the router, the \<open>update\<close> events published are
  those the claim describes. Of the messages that the router takes for updates (no
  error, no pending request under their id, not the sentinel), each option,
  connection-state and authorization-state update is published whatever
  \<open>skipOldUpdates\<close> says, and any other update is left out exactly when
  \<open>skipOldUpdates\<close> is set and the connection state stored by then is
  \<open>connectionStateUpdating\<close>.
\<close>

theorem router_publishes_updates:
  assumes "\<forall>m \<in> set ms. well_formed m" and "\<not> nullish (connectionState s)"
  shows "published ''update'' (trace (route_all ev s ms)) =
     published ''update'' (trace s) @
       map PJson (spec_published (skipOldUpdates (options s)) (connectionState s)
                    (map fst (fetching s)) ms)"
  using assms
proof (induction ms arbitrary: s)
  case Nil
  show ?case by simp
next
  case (Cons m ms)
  let ?s1 = "caught (handleResponse ev s m)"
  have wf: "well_formed m" "\<forall>m \<in> set ms. well_formed m"
    using Cons.prems(1) by simp_all
  note step = route_step [OF wf(1) Cons.prems(2), of ev]
  have cs: "\<not> nullish (connectionState ?s1)"
    using wf(1) Cons.prems(2) by (auto simp: step(3) well_formed_def)
  have "published ''update'' (trace (route_all ev s (m # ms))) =
      published ''update'' (trace ?s1) @
        map PJson (spec_published (skipOldUpdates (options ?s1)) (connectionState ?s1)
                     (map fst (fetching ?s1)) ms)"
    using Cons.IH [OF wf(2) cs] by simp
  also have "\<dots> = published ''update'' (trace s) @
       map PJson (spec_published (skipOldUpdates (options s)) (connectionState s)
                    (map fst (fetching s)) (m # ms))"
    by (simp add: step privileged_def)
  finally show ?case .
qed

theorem router_publishes_updates_witness:
  "published ''update''
     (trace (route_all example_env (fst (invoke skipping_session ''id1'' getMe))
        [upd_connection ''connectionStateUpdating'', upd_message 1, user_reply,
         request_error, upd_version ''1.8.14'',
         upd_auth ''authorizationStateWaitTdlibParameters'', upd_message 2,
         upd_connection ''connectionStateReady'', upd_message 3]))
   = [PJson (upd_connection ''connectionStateUpdating''), PJson (upd_version ''1.8.14''),
      PJson (upd_auth ''authorizationStateWaitTdlibParameters''),
      PJson (upd_connection ''connectionStateReady''), PJson (upd_message 3)]"
proof -
  let ?s = "fst (invoke skipping_session ''id1'' getMe)"
  let ?ms = "[upd_connection ''connectionStateUpdating'', upd_message 1, user_reply,
         request_error, upd_version ''1.8.14'',
         upd_auth ''authorizationStateWaitTdlibParameters'', upd_message 2,
         upd_connection ''connectionStateReady'', upd_message 3]"
  have wf: "\<forall>m \<in> set ?ms. well_formed m"
    by (simp add: well_formed_def upd_connection_def upd_message_def upd_version_def
        upd_auth_def user_reply_def request_error_def)
  have s: "\<not> nullish (connectionState ?s)" "skipOldUpdates (options ?s)"
    "connectionState ?s = JObj [(''_'', JStr ''connectionStateConnecting'')]"
    "map fst (fetching ?s) = [''id1'']" "published ''update'' (trace ?s) = []"
    by (simp_all add: skipping_session_def connected_session_eq fresh_session_def invoke_def
        send_def Let_def example_options_def)
  have "spec_published True (JObj [(''_'', JStr ''connectionStateConnecting'')]) [''id1''] ?ms
      = [upd_connection ''connectionStateUpdating'', upd_version ''1.8.14'',
         upd_auth ''authorizationStateWaitTdlibParameters'',
         upd_connection ''connectionStateReady'', upd_message 3]"
    by (simp add: privileged_def awaited_def settled_def TDL_MAGIC_def
        upd_connection_def upd_message_def upd_version_def
        upd_auth_def user_reply_def request_error_def)
  then show ?thesis
    using router_publishes_updates [OF wf s(1), of example_env] s(2-5)
    by simp
qed

section \<open>Properties of the authorization flow\<close>

text \<open>
  C5 as stated fails. With a version below 1.8.6 (here the default, 1.8.0) the nested
  request is sent and the connect gate, which has its resolver, is left pending. With
  a newer version and a \<open>_\<close> property among the configured \<open>tdlibParameters\<close>
  an exception is thrown and nothing is sent. On a destroyed session nothing is sent
  either.
\<close>

theorem handshake_without_connect:
  "sent (trace (fst (handleAuth example_env connected_session
        (upd_auth ''authorizationStateWaitTdlibParameters''))))
     = [jset ''@extra'' (JStr TDL_MAGIC) (setTdlibParameters_nested example_env example_options)] \<and>
   fired (trace (fst (handleAuth example_env connected_session
        (upd_auth ''authorizationStateWaitTdlibParameters'')))) = [] \<and>
   connectDefer (fst (handleAuth example_env connected_session
        (upd_auth ''authorizationStateWaitTdlibParameters'')))
     = \<lparr> innerDefer = Some 0, isDone = False \<rparr> \<and>
   handleAuth example_env tagged_session (upd_auth ''authorizationStateWaitTdlibParameters'')
     = (tagged_session, Some (Error ''tdlibParameters must not contain the _ property'')) \<and>
   sent (trace (fst (handleAuth example_env (destroy modern_session)
        (upd_auth ''authorizationStateWaitTdlibParameters'')))) = []"
  by (simp add: handleAuth_def upd_auth_def tagged_session_def modern_session_def
      connected_session_eq fresh_session_def TDLIB_1_8_6_def TDLIB_DEFAULT_def Let_def
      sendTdl_def send_def destroy_def resume_def emit_def connectDefer_resolve_def
      deferred_resolve_def example_options_def)

text \<open>
  C5, amended. When \<open>authorizationStateWaitTdlibParameters\<close> is handled on a
  session with a live engine handle:
  \<^item> with a version of at least 1.8.6 and no \<open>_\<close> property among the configured
    \<open>tdlibParameters\<close>, exactly the flattened request is sent, and then the
    connect gate is resolved;
  \<^item> with a version below 1.8.6, exactly the nested request is sent, and the
    connect gate is left as it was;
  \<^item> with a version of at least 1.8.6 and a \<open>_\<close> property there, the handler throws
    and nothing is sent.
  On an engine below 1.8.6 the gate is resolved when
  \<open>authorizationStateWaitEncryptionKey\<close> is handled, after the key was sent.
\<close>

theorem handshake_on_wait_tdlib_parameters:
  assumes "jget (jget update ''authorization_state'') ''_''
             = JStr ''authorizationStateWaitTdlibParameters''"
    and "client s = Some h"
  shows
    "(gte (version s) TDLIB_1_8_6 \<and>
      (jget (JObj (tdlibParameters (options s))) ''_'' = JUndefined \<or>
       jget (JObj (tdlibParameters (options s))) ''_'' = JNull) \<longrightarrow>
        trace (fst (handleAuth ev s update)) =
          trace s @ [TdSend (jset ''@extra'' (JStr TDL_MAGIC)
                       (setTdlibParameters_flat ev (options s)))]
                  @ snd (deferred_resolve (connectDefer s) PNone) \<and>
        connectDefer (fst (handleAuth ev s update)) = fst (deferred_resolve (connectDefer s) PNone) \<and>
        snd (handleAuth ev s update) = None) \<and>
     (\<not> gte (version s) TDLIB_1_8_6 \<longrightarrow>
        trace (fst (handleAuth ev s update)) =
          trace s @ [TdSend (jset ''@extra'' (JStr TDL_MAGIC)
                       (setTdlibParameters_nested ev (options s)))] \<and>
        connectDefer (fst (handleAuth ev s update)) = connectDefer s \<and>
        snd (handleAuth ev s update) = None) \<and>
     (gte (version s) TDLIB_1_8_6 \<and>
      jget (JObj (tdlibParameters (options s))) ''_'' \<noteq> JUndefined \<and>
      jget (JObj (tdlibParameters (options s))) ''_'' \<noteq> JNull \<longrightarrow>
        handleAuth ev s update =
          (s, Some (Error ''tdlibParameters must not contain the _ property''))) \<and>
     (\<forall>u. jget (jget u ''authorization_state'') ''_'' = JStr ''authorizationStateWaitEncryptionKey''
        \<longrightarrow> trace (fst (handleAuth ev s u)) =
          trace s @ [TdSend (JObj [(''_'', JStr ''checkDatabaseEncryptionKey''),
                       (''encryption_key'', databaseEncryptionKey (options s)),
                       (''@extra'', JStr TDL_MAGIC)])]
                  @ snd (deferred_resolve (connectDefer s) PNone))"
proof -
  have obj: "\<not> nullish update \<and> \<not> nullish (jget update ''authorization_state'')"
    using assms(1) jget_JStr_not_nullish [of "jget update ''authorization_state''"]
      jget_nullish [of update] by auto
  show ?thesis
  proof (intro conjI impI allI)
  assume a: "gte (version s) TDLIB_1_8_6 \<and>
      (jget (JObj (tdlibParameters (options s))) ''_'' = JUndefined \<or>
       jget (JObj (tdlibParameters (options s))) ''_'' = JNull)"
  then have eq: "handleAuth ev s update =
      (connectDefer_resolve (sendTdl s (setTdlibParameters_flat ev (options s))) PNone, None)"
    using assms(1) obj by (auto simp: handleAuth_def Let_def)
  show "trace (fst (handleAuth ev s update)) =
          trace s @ [TdSend (jset ''@extra'' (JStr TDL_MAGIC)
                       (setTdlibParameters_flat ev (options s)))]
                  @ snd (deferred_resolve (connectDefer s) PNone)"
    using assms(2)
    by (simp add: eq connectDefer_resolve_def sendTdl_def send_def split: prod.splits)
  show "connectDefer (fst (handleAuth ev s update)) = fst (deferred_resolve (connectDefer s) PNone)"
    using assms(2)
    by (simp add: eq connectDefer_resolve_def sendTdl_def send_def split: prod.splits)
  show "snd (handleAuth ev s update) = None"
    by (simp add: eq)
next
  assume a: "\<not> gte (version s) TDLIB_1_8_6"
  then have eq: "handleAuth ev s update =
      (sendTdl s (setTdlibParameters_nested ev (options s)), None)"
    using assms(1) obj by (simp add: handleAuth_def Let_def)
  show "trace (fst (handleAuth ev s update)) =
          trace s @ [TdSend (jset ''@extra'' (JStr TDL_MAGIC)
                       (setTdlibParameters_nested ev (options s)))]"
    using assms(2) by (simp add: eq sendTdl_def send_def)
  show "connectDefer (fst (handleAuth ev s update)) = connectDefer s"
    using assms(2) by (simp add: eq sendTdl_def send_def)
  show "snd (handleAuth ev s update) = None"
    by (simp add: eq)
next
  assume "gte (version s) TDLIB_1_8_6 \<and>
      jget (JObj (tdlibParameters (options s))) ''_'' \<noteq> JUndefined \<and>
      jget (JObj (tdlibParameters (options s))) ''_'' \<noteq> JNull"
  then show "handleAuth ev s update =
          (s, Some (Error ''tdlibParameters must not contain the _ property''))"
    using assms(1) obj by (simp add: handleAuth_def Let_def)
next
  fix u
  assume u: "jget (jget u ''authorization_state'') ''_'' = JStr ''authorizationStateWaitEncryptionKey''"
  then have "\<not> nullish u \<and> \<not> nullish (jget u ''authorization_state'')"
    using jget_JStr_not_nullish [of "jget u ''authorization_state''"] jget_nullish [of u] by auto
  with u have "handleAuth ev s u =
      (connectDefer_resolve
           (sendTdl s (JObj [(''_'', JStr ''checkDatabaseEncryptionKey''),
                             (''encryption_key'', databaseEncryptionKey (options s))])) PNone,
         None)"
    by (simp add: handleAuth_def Let_def)
  then show "trace (fst (handleAuth ev s u)) =
          trace s @ [TdSend (JObj [(''_'', JStr ''checkDatabaseEncryptionKey''),
                       (''encryption_key'', databaseEncryptionKey (options s)),
                       (''@extra'', JStr TDL_MAGIC)])]
                  @ snd (deferred_resolve (connectDefer s) PNone)"
    using assms(2)
    by (simp add: connectDefer_resolve_def sendTdl_def send_def split: prod.splits)
qed
qed


theorem handshake_on_wait_tdlib_parameters_witness:
  "trace (fst (handleAuth example_env modern_session
        (upd_auth ''authorizationStateWaitTdlibParameters'')))
     = trace modern_session @
       [TdSend (jset ''@extra'' (JStr TDL_MAGIC)
          (setTdlibParameters_flat example_env example_options)),
        Fire 0 (Resolve PNone)] \<and>
   isDone (connectDefer (fst (handleAuth example_env modern_session
        (upd_auth ''authorizationStateWaitTdlibParameters'')))) \<and>
   trace (fst (handleAuth example_env connected_session
        (upd_auth ''authorizationStateWaitTdlibParameters'')))
     = trace connected_session @
       [TdSend (jset ''@extra'' (JStr TDL_MAGIC)
          (setTdlibParameters_nested example_env example_options))] \<and>
   trace (fst (handleAuth example_env connected_session
        (upd_auth ''authorizationStateWaitEncryptionKey'')))
     = trace connected_session @
       [TdSend (JObj [(''_'', JStr ''checkDatabaseEncryptionKey''),
          (''encryption_key'', JStr []), (''@extra'', JStr TDL_MAGIC)]),
        Fire 0 (Resolve PNone)] \<and>
   jget (setTdlibParameters_flat example_env example_options) ''parameters'' = JUndefined \<and>
   jget (setTdlibParameters_flat example_env example_options) ''api_id'' = JNum 2222 \<and>
   jget (jget (setTdlibParameters_nested example_env example_options) ''parameters'') ''api_id''
     = JNum 2222"
proof -
  have upd: "jget (jget (upd_auth ''authorizationStateWaitTdlibParameters'')
      ''authorization_state'') ''_'' = JStr ''authorizationStateWaitTdlibParameters''"
    "jget (jget (upd_auth ''authorizationStateWaitEncryptionKey'')
      ''authorization_state'') ''_'' = JStr ''authorizationStateWaitEncryptionKey''"
    by (simp_all add: upd_auth_def)
  have live: "client modern_session = Some 7" "client connected_session = Some 7"
    by (simp_all add: modern_session_def connected_session_eq fresh_session_def)
  have st: "gte (version modern_session) TDLIB_1_8_6"
    "\<not> gte (version connected_session) TDLIB_1_8_6"
    "options modern_session = example_options" "options connected_session = example_options"
    "connectDefer modern_session = \<lparr> innerDefer = Some 0, isDone = False \<rparr>"
    "connectDefer connected_session = \<lparr> innerDefer = Some 0, isDone = False \<rparr>"
    "jget (JObj (tdlibParameters example_options)) ''_'' = JUndefined"
    by (simp_all add: modern_session_def connected_session_eq fresh_session_def
        TDLIB_1_8_6_def TDLIB_DEFAULT_def example_options_def)
  have shape: "jget (setTdlibParameters_flat example_env example_options) ''parameters'' = JUndefined"
    "jget (setTdlibParameters_flat example_env example_options) ''api_id'' = JNum 2222"
    "jget (jget (setTdlibParameters_nested example_env example_options) ''parameters'') ''api_id''
       = JNum 2222"
    by (simp_all add: setTdlibParameters_flat_def setTdlibParameters_nested_def spread_def
        example_options_def)
  show ?thesis
    using handshake_on_wait_tdlib_parameters [OF upd(1) live(1), of example_env]
      handshake_on_wait_tdlib_parameters [OF upd(1) live(2), of example_env] upd(2) shape
    by (simp add: st deferred_resolve_def example_options_def)
qed


section \<open>Properties of the error path\<close>

lemma catchError_sent: "sent (trace (catchError s e)) = sent (trace s)"
  by (simp add: catchError_def Let_def emit_def connectDefer_reject_def loginDefer_reject_def
      deferred_reject_def split: option.splits)

lemma catchError_published_error:
  "published ''error'' (trace (catchError s e)) =
     published ''error'' (trace s) @
       (if isPending (connectDefer s) \<or> isPending (loginDefer s) then [] else [e])"
  by (simp add: catchError_def Let_def emit_def connectDefer_reject_def loginDefer_reject_def
      deferred_reject_def split: option.splits)

lemma catchError_fired:
  "fired (trace (catchError s e)) =
     fired (trace s) @ fired (snd (deferred_reject (connectDefer s) e))
                     @ fired (snd (deferred_reject (loginDefer s) e))"
  by (simp add: catchError_def Let_def emit_def connectDefer_reject_def loginDefer_reject_def
      deferred_reject_def isPending_def split: option.splits)

lemma logging_in_user:
  "logging_in example_user =
     connected_session
       \<lparr> connectDefer := \<lparr> innerDefer = Some 0, isDone = True \<rparr>, authNeeded := True,
         loginDetails := Some example_user,
         loginDefer := \<lparr> innerDefer = Some 1, isDone = False \<rparr>,
         version := Version 1 8 14, nextPromise := 2,
         trace := trace connected_session @
           [Emit ''_login'' PNone,
            Emit ''response'' (PJson (upd_version ''1.8.14'')),
            Emit ''update'' (PJson (upd_version ''1.8.14'')),
            Emit ''response'' (PJson (upd_auth ''authorizationStateWaitTdlibParameters'')),
            Emit ''update'' (PJson (upd_auth ''authorizationStateWaitTdlibParameters'')),
            TdSend (jset ''@extra'' (JStr TDL_MAGIC)
              (setTdlibParameters_flat example_env example_options)),
            Fire 0 (Resolve PNone),
            Emit ''response'' (PJson (upd_auth ''authorizationStateWaitPhoneNumber'')),
            Emit ''update'' (PJson (upd_auth ''authorizationStateWaitPhoneNumber'')),
            Emit ''auth-needed'' PNone,
            Prompt ''getPhoneNumber'' [JBool False],
            TdSend (JObj [(''_'', JStr ''setAuthenticationPhoneNumber''),
              (''phone_number'', JStr ''+15550001''), (''@extra'', JStr TDL_MAGIC)])] \<rparr>"
  by (simp add: logging_in_def login_def connected_session_eq fresh_session_def
      handleResponse_def fetching_get_def
      handleUpdate_def handleAuth_def handleAuth_login_def waitLogin_def with_login_def
      authHasNeeded_def ask_and_send_def caught_def emit_def sendTdl_def send_def
      connectDefer_resolve_def deferred_resolve_def setDefer_def new_TdlDeferred_def
      isDeferSet_def upd_version_def upd_auth_def example_env_def example_user_def
      example_options_def TDLIB_1_8_6_def Let_def)


lemma logging_in_bot:
  "logging_in example_bot =
     connected_session
       \<lparr> connectDefer := \<lparr> innerDefer = Some 0, isDone = True \<rparr>, authNeeded := True,
         loginDetails := Some example_bot,
         loginDefer := \<lparr> innerDefer = Some 1, isDone = False \<rparr>,
         version := Version 1 8 14, nextPromise := 2,
         trace := trace connected_session @
           [Emit ''_login'' PNone,
            Emit ''response'' (PJson (upd_version ''1.8.14'')),
            Emit ''update'' (PJson (upd_version ''1.8.14'')),
            Emit ''response'' (PJson (upd_auth ''authorizationStateWaitTdlibParameters'')),
            Emit ''update'' (PJson (upd_auth ''authorizationStateWaitTdlibParameters'')),
            TdSend (jset ''@extra'' (JStr TDL_MAGIC)
              (setTdlibParameters_flat example_env example_options)),
            Fire 0 (Resolve PNone),
            Emit ''response'' (PJson (upd_auth ''authorizationStateWaitPhoneNumber'')),
            Emit ''update'' (PJson (upd_auth ''authorizationStateWaitPhoneNumber'')),
            Emit ''auth-needed'' PNone,
            Prompt ''getToken'' [JBool False],
            TdSend (JObj [(''_'', JStr ''checkAuthenticationBotToken''),
              (''token'', JStr ''123:token''), (''@extra'', JStr TDL_MAGIC)])] \<rparr>"
  by (simp add: logging_in_def login_def connected_session_eq fresh_session_def
      handleResponse_def fetching_get_def
      handleUpdate_def handleAuth_def handleAuth_login_def waitLogin_def with_login_def
      authHasNeeded_def ask_and_send_def caught_def emit_def sendTdl_def send_def
      connectDefer_resolve_def deferred_resolve_def setDefer_def new_TdlDeferred_def
      isDeferSet_def upd_version_def upd_auth_def example_env_def example_bot_def
      example_user_def
      example_options_def TDLIB_1_8_6_def Let_def)

text \<open>
  C1 as stated fails. While the user of the example session is logging in (the login
  gate has its resolver and is pending), an authentication error with a message
  outside the table is not published: the login gate is rejected with it. A message
  of the table sends nothing when the callback that is asked again throws, and
  nothing when the session has been destroyed.
\<close>

theorem auth_error_not_published:
  "published ''error'' (trace (fst (handleError (logging_in example_user)
       (auth_error ''PHONE_NUMBER_BANNED'')))) = [] \<and>
   fired (trace (fst (handleError (logging_in example_user) (auth_error ''PHONE_NUMBER_BANNED''))))
     = [(0, Resolve PNone),
        (1, Reject (PJson (JObj [(''_'', JStr ''error''), (''code'', JNum 400),
              (''message'', JStr ''PHONE_NUMBER_BANNED'')])))] \<and>
   handleError
       ((logging_in example_user)\<lparr> loginDetails :=
           Some (example_user\<lparr> getAuthCode := (\<lambda>retry. Inl (Thrown (JStr ''cancelled''))) \<rparr>) \<rparr>)
       (auth_error ''PHONE_CODE_INVALID'')
     = ((logging_in example_user)\<lparr> loginDetails :=
           Some (example_user\<lparr> getAuthCode := (\<lambda>retry. Inl (Thrown (JStr ''cancelled''))) \<rparr>),
          trace := trace (logging_in example_user) @ [Prompt ''getAuthCode'' [JBool True]] \<rparr>,
        Some (Thrown (JStr ''cancelled''))) \<and>
   sent (trace (fst (handleError (destroy (logging_in example_user))
       (auth_error ''PHONE_CODE_INVALID''))))
     = sent (trace (logging_in example_user))"
  apply (simp only: logging_in_user)
  apply (simp add: connected_session_eq fresh_session_def auth_error_def
      handleError_def handleUserError_def emitErrWithoutExtra_def catchError_def
      fetching_get_def ask_and_send_def sendTdl_def send_def destroy_def resume_def emit_def
      connectDefer_reject_def loginDefer_reject_def deferred_reject_def isPending_def
      example_user_def TDL_MAGIC_def Let_def)
  done

text \<open>
  C1, amended. For an error that carries the sentinel id, on a session with a live
  engine handle, with login details and with no pending request under the sentinel,
  the handler is total over the messages. For a message of the table (user:
  \<open>PHONE_CODE_EMPTY\<close>, \<open>PHONE_CODE_INVALID\<close>, \<open>PHONE_NUMBER_INVALID\<close>,
  \<open>PASSWORD_HASH_INVALID\<close>; bot: \<open>ACCESS_TOKEN_INVALID\<close>) the callback is asked
  once with the retry flag set; when it answers, the request is sent once with the
  answer and nothing else is done; when it throws, nothing is sent and the exception
  leaves the handler. For any other message nothing is asked or sent, and the error,
  without its \<open>@extra\<close>, goes to \<open>_catchError\<close>: it is published once as
  \<open>error\<close> when neither the connect gate nor the login gate is pending, and
  otherwise it is not published and the pending gates are rejected with it.
\<close>

theorem auth_error_retry_table:
  assumes "jget err ''@extra'' = JStr TDL_MAGIC"
    and "map_of (fetching s) TDL_MAGIC = None"
    and "loginDetails s = Some ld"
    and "client s = Some h"
  shows
    "case spec_retry_table (login_kind ld) (jget err ''message'') of
       Some (f, args, ty, field) \<Rightarrow>
         (case retry_answer ld f of
            Inr v \<Rightarrow>
              handleError s err =
                (s\<lparr> trace := trace s @
                    [Prompt f args,
                     TdSend (JObj [(''_'', JStr ty), (field, v), (''@extra'', JStr TDL_MAGIC)])] \<rparr>,
                 None)
          | Inl e \<Rightarrow>
              handleError s err = (s\<lparr> trace := trace s @ [Prompt f args] \<rparr>, Some e))
     | None \<Rightarrow>
         handleError s err = (catchError s (PJson (jdelete ''@extra'' err)), None) \<and>
         sent (trace (fst (handleError s err))) = sent (trace s) \<and>
         published ''error'' (trace (fst (handleError s err))) =
           published ''error'' (trace s) @
             (if isPending (connectDefer s) \<or> isPending (loginDefer s) then []
              else [PJson (jdelete ''@extra'' err)]) \<and>
         fired (trace (fst (handleError s err))) =
           fired (trace s) @
             fired (snd (deferred_reject (connectDefer s) (PJson (jdelete ''@extra'' err)))) @
             fired (snd (deferred_reject (loginDefer s) (PJson (jdelete ''@extra'' err))))"
proof -
  let ?m = "jget err ''message''"
  have he: "handleError s err =
      (case login_kind ld of LoginUser \<Rightarrow> handleUserError s err ld
       | LoginBot \<Rightarrow> handleBotError s err ld)"
    using assms(1-3) jget_JStr_not_nullish [OF assms(1)]
    by (simp add: handleError_def fetching_get_def)
  have other: "handleError s err = (catchError s (PJson (jdelete ''@extra'' err)), None) \<Longrightarrow>
      handleError s err = (catchError s (PJson (jdelete ''@extra'' err)), None) \<and>
         sent (trace (fst (handleError s err))) = sent (trace s) \<and>
         published ''error'' (trace (fst (handleError s err))) =
           published ''error'' (trace s) @
             (if isPending (connectDefer s) \<or> isPending (loginDefer s) then []
              else [PJson (jdelete ''@extra'' err)]) \<and>
         fired (trace (fst (handleError s err))) =
           fired (trace s) @
             fired (snd (deferred_reject (connectDefer s) (PJson (jdelete ''@extra'' err)))) @
             fired (snd (deferred_reject (loginDefer s) (PJson (jdelete ''@extra'' err))))"
    by (simp add: catchError_sent catchError_published_error catchError_fired)
  have ask: "ask_and_send s f args answer mk =
      (case answer of Inl e \<Rightarrow> (s\<lparr> trace := trace s @ [Prompt f args] \<rparr>, Some e)
       | Inr v \<Rightarrow> (s\<lparr> trace := trace s @
            [Prompt f args, TdSend (jset ''@extra'' (JStr TDL_MAGIC) (mk v))] \<rparr>, None))"
    for f args answer mk
    using assms(4)
    by (simp add: ask_and_send_def sendTdl_def send_def Let_def split: sum.splits)
  show ?thesis
  proof (cases "login_kind ld")
    case LoginUser
    consider (code) "?m = JStr ''PHONE_CODE_EMPTY'' \<or> ?m = JStr ''PHONE_CODE_INVALID''"
      | (phone) "?m = JStr ''PHONE_NUMBER_INVALID''"
      | (pw) "?m = JStr ''PASSWORD_HASH_INVALID''"
      | (none) "?m \<noteq> JStr ''PHONE_CODE_EMPTY''" "?m \<noteq> JStr ''PHONE_CODE_INVALID''"
          "?m \<noteq> JStr ''PHONE_NUMBER_INVALID''" "?m \<noteq> JStr ''PASSWORD_HASH_INVALID''"
      by blast
    then show ?thesis
    proof cases
      case code
      then have t: "spec_retry_table (login_kind ld) ?m =
          Some (''getAuthCode'', [JBool True], ''checkAuthenticationCode'', ''code'')"
        by (auto simp: spec_retry_table_def LoginUser)
      have h: "handleError s err = ask_and_send s ''getAuthCode'' [JBool True] (getAuthCode ld True)
          (\<lambda>v. JObj [(''_'', JStr ''checkAuthenticationCode''), (''code'', v)])"
        using code by (auto simp: he LoginUser handleUserError_def Let_def)
      show ?thesis
        unfolding t h ask
        by (simp add: retry_answer_def split: sum.splits)
    next
      case phone
      then have t: "spec_retry_table (login_kind ld) ?m =
          Some (''getPhoneNumber'', [JBool True], ''setAuthenticationPhoneNumber'', ''phone_number'')"
        by (simp add: spec_retry_table_def LoginUser)
      have h: "handleError s err = ask_and_send s ''getPhoneNumber'' [JBool True] (getPhoneNumber ld True)
          (\<lambda>v. JObj [(''_'', JStr ''setAuthenticationPhoneNumber''), (''phone_number'', v)])"
        using phone by (simp add: he LoginUser handleUserError_def Let_def)
      show ?thesis
        unfolding t h ask
        by (simp add: retry_answer_def split: sum.splits)
    next
      case pw
      then have t: "spec_retry_table (login_kind ld) ?m =
          Some (''getPassword'', [JStr [], JBool True], ''checkAuthenticationPassword'', ''password'')"
        by (simp add: spec_retry_table_def LoginUser)
      have h: "handleError s err = ask_and_send s ''getPassword'' [JStr [], JBool True]
          (getPassword ld (JStr []) True)
          (\<lambda>v. JObj [(''_'', JStr ''checkAuthenticationPassword''), (''password'', v)])"
        using pw by (simp add: he LoginUser handleUserError_def Let_def)
      show ?thesis
        unfolding t h ask
        by (simp add: retry_answer_def split: sum.splits)
    next
      case none
      then have t: "spec_retry_table (login_kind ld) ?m = None"
        by (simp add: spec_retry_table_def LoginUser)
      have h: "handleError s err = (catchError s (PJson (jdelete ''@extra'' err)), None)"
        using none by (simp add: he LoginUser handleUserError_def emitErrWithoutExtra_def Let_def)
      show ?thesis
        unfolding t option.case by (rule other [OF h])
    qed
  next
    case LoginBot
    show ?thesis
    proof (cases "?m = JStr ''ACCESS_TOKEN_INVALID''")
      case True
      then have t: "spec_retry_table (login_kind ld) ?m =
          Some (''getToken'', [JBool True], ''checkAuthenticationBotToken'', ''token'')"
        by (simp add: spec_retry_table_def LoginBot)
      have h: "handleError s err = ask_and_send s ''getToken'' [JBool True] (getToken ld True)
          (\<lambda>v. JObj [(''_'', JStr ''checkAuthenticationBotToken''), (''token'', v)])"
        using True by (simp add: he LoginBot handleBotError_def)
      show ?thesis
        unfolding t h ask
        by (simp add: retry_answer_def split: sum.splits)
    next
      case False
      then have t: "spec_retry_table (login_kind ld) ?m = None"
        by (simp add: spec_retry_table_def LoginBot)
      have h: "handleError s err = (catchError s (PJson (jdelete ''@extra'' err)), None)"
        using False by (simp add: he LoginBot handleBotError_def emitErrWithoutExtra_def)
      show ?thesis
        unfolding t option.case by (rule other [OF h])
    qed
  qed
qed


theorem auth_error_retry_table_witness:
  "handleError (logging_in example_user) (auth_error ''PHONE_NUMBER_INVALID'')
     = ((logging_in example_user)\<lparr> trace := trace (logging_in example_user) @
          [Prompt ''getPhoneNumber'' [JBool True],
           TdSend (JObj [(''_'', JStr ''setAuthenticationPhoneNumber''),
             (''phone_number'', JStr ''+15550002''), (''@extra'', JStr TDL_MAGIC)])] \<rparr>, None) \<and>
   handleError (logging_in example_user) (auth_error ''PHONE_CODE_EMPTY'')
     = ((logging_in example_user)\<lparr> trace := trace (logging_in example_user) @
          [Prompt ''getAuthCode'' [JBool True],
           TdSend (JObj [(''_'', JStr ''checkAuthenticationCode''),
             (''code'', JStr ''22222''), (''@extra'', JStr TDL_MAGIC)])] \<rparr>, None) \<and>
   handleError (logging_in example_bot) (auth_error ''ACCESS_TOKEN_INVALID'')
     = ((logging_in example_bot)\<lparr> trace := trace (logging_in example_bot) @
          [Prompt ''getToken'' [JBool True],
           TdSend (JObj [(''_'', JStr ''checkAuthenticationBotToken''),
             (''token'', JStr ''123:token''), (''@extra'', JStr TDL_MAGIC)])] \<rparr>, None) \<and>
   sent (trace (fst (handleError (logging_in example_user) (auth_error ''ACCESS_TOKEN_INVALID''))))
     = sent (trace (logging_in example_user)) \<and>
   published ''error'' (trace (fst (handleError
       ((logging_in example_user)\<lparr> loginDefer := \<lparr> innerDefer = Some 1, isDone = True \<rparr> \<rparr>)
       (auth_error ''FLOOD_WAIT''))))
     = [PJson (JObj [(''_'', JStr ''error''), (''code'', JNum 400),
                     (''message'', JStr ''FLOOD_WAIT'')])]"
proof -
  have extra: "jget (auth_error msg) ''@extra'' = JStr TDL_MAGIC"
    "jget (auth_error msg) ''message'' = JStr msg"
    "jdelete ''@extra'' (auth_error msg) =
       JObj [(''_'', JStr ''error''), (''code'', JNum 400), (''message'', JStr msg)]" for msg
    by (simp_all add: auth_error_def)
  have st: "map_of (fetching (logging_in example_user)) TDL_MAGIC = None"
    "loginDetails (logging_in example_user) = Some example_user"
    "client (logging_in example_user) = Some 7"
    "isDone (connectDefer (logging_in example_user))"
    "published ''error'' (trace (logging_in example_user)) = []"
    by (simp_all add: logging_in_user connected_session_eq fresh_session_def)
  have user: "login_kind example_user = LoginUser"
    "getPhoneNumber example_user True = Inr (JStr ''+15550002'')"
    "getAuthCode example_user True = Inr (JStr ''22222'')"
    by (simp_all add: example_user_def)
  have tab: "spec_retry_table LoginUser (JStr ''PHONE_NUMBER_INVALID'') =
      Some (''getPhoneNumber'', [JBool True], ''setAuthenticationPhoneNumber'', ''phone_number'')"
    "spec_retry_table LoginUser (JStr ''PHONE_CODE_EMPTY'') =
      Some (''getAuthCode'', [JBool True], ''checkAuthenticationCode'', ''code'')"
    "spec_retry_table LoginUser (JStr ''ACCESS_TOKEN_INVALID'') = None"
    "spec_retry_table LoginUser (JStr ''FLOOD_WAIT'') = None"
    by (simp_all add: spec_retry_table_def)
  have ans: "retry_answer example_user ''getPhoneNumber'' = Inr (JStr ''+15550002'')"
    "retry_answer example_user ''getAuthCode'' = Inr (JStr ''22222'')"
    by (simp_all add: retry_answer_def user)
  let ?done = "(logging_in example_user)\<lparr> loginDefer := \<lparr> innerDefer = Some 1, isDone = True \<rparr> \<rparr>"
  have st': "map_of (fetching ?done) TDL_MAGIC = None" "loginDetails ?done = Some example_user"
    "client ?done = Some 7" "\<not> isPending (connectDefer ?done)" "\<not> isPending (loginDefer ?done)"
    "published ''error'' (trace ?done) = []"
    using st by (simp_all add: isPending_def)
  have a: "handleError (logging_in example_user) (auth_error ''PHONE_NUMBER_INVALID'')
     = ((logging_in example_user)\<lparr> trace := trace (logging_in example_user) @
          [Prompt ''getPhoneNumber'' [JBool True],
           TdSend (JObj [(''_'', JStr ''setAuthenticationPhoneNumber''),
             (''phone_number'', JStr ''+15550002''), (''@extra'', JStr TDL_MAGIC)])] \<rparr>, None)"
    using auth_error_retry_table [OF extra(1) st(1) st(2) st(3), of "''PHONE_NUMBER_INVALID''"]
    by (simp add: extra user tab ans)
  have b: "handleError (logging_in example_user) (auth_error ''PHONE_CODE_EMPTY'')
     = ((logging_in example_user)\<lparr> trace := trace (logging_in example_user) @
          [Prompt ''getAuthCode'' [JBool True],
           TdSend (JObj [(''_'', JStr ''checkAuthenticationCode''),
             (''code'', JStr ''22222''), (''@extra'', JStr TDL_MAGIC)])] \<rparr>, None)"
    using auth_error_retry_table [OF extra(1) st(1) st(2) st(3), of "''PHONE_CODE_EMPTY''"]
    by (simp add: extra user tab ans)
  have bot123: "map_of (fetching (logging_in example_bot)) TDL_MAGIC = None"
    "loginDetails (logging_in example_bot) = Some example_bot"
    "client (logging_in example_bot) = Some 7"
    by (simp_all add: logging_in_bot connected_session_eq fresh_session_def)
  have bot456: "login_kind example_bot = LoginBot"
    "spec_retry_table LoginBot (JStr ''ACCESS_TOKEN_INVALID'') =
      Some (''getToken'', [JBool True], ''checkAuthenticationBotToken'', ''token'')"
    "retry_answer example_bot ''getToken'' = Inr (JStr ''123:token'')"
    by (simp_all add: spec_retry_table_def retry_answer_def example_bot_def)
  note bot = bot123 bot456
  have b': "handleError (logging_in example_bot) (auth_error ''ACCESS_TOKEN_INVALID'')
     = ((logging_in example_bot)\<lparr> trace := trace (logging_in example_bot) @
          [Prompt ''getToken'' [JBool True],
           TdSend (JObj [(''_'', JStr ''checkAuthenticationBotToken''),
             (''token'', JStr ''123:token''), (''@extra'', JStr TDL_MAGIC)])] \<rparr>, None)"
    using auth_error_retry_table [OF extra(1) bot(1) bot(2) bot(3), of "''ACCESS_TOKEN_INVALID''"]
    by (simp add: extra bot(4-6))
  note none1 = auth_error_retry_table [OF extra(1) st(1) st(2) st(3),
      of "''ACCESS_TOKEN_INVALID''", unfolded extra(2) user(1) tab(3) option.case]
  have c: "sent (trace (fst (handleError (logging_in example_user)
        (auth_error ''ACCESS_TOKEN_INVALID'')))) = sent (trace (logging_in example_user))"
    by (rule none1 [THEN conjunct2, THEN conjunct1])
  note none2 = auth_error_retry_table [OF extra(1) st'(1) st'(2) st'(3),
      of "''FLOOD_WAIT''", unfolded extra(2) user(1) tab(4) option.case]
  have d: "published ''error'' (trace (fst (handleError ?done (auth_error ''FLOOD_WAIT''))))
     = [PJson (JObj [(''_'', JStr ''error''), (''code'', JNum 400),
                     (''message'', JStr ''FLOOD_WAIT'')])]"
    using none2 [THEN conjunct2, THEN conjunct2, THEN conjunct1] st'(4-6)
    by (simp add: extra(3))
  from a b b' c d show ?thesis by blast
qed

section \<open>Properties of the pending requests\<close>

lemma awaiting_session_eq:
  "awaiting_session =
     connected_session\<lparr> nextPromise := 2, fetching := [(''id1'', 1)],
       trace := trace connected_session @
         [TdSend (JObj [(''_'', JStr ''getMe''), (''@extra'', JStr ''id1'')])] \<rparr>"
  by (simp add: awaiting_session_def connected_session_eq fresh_session_def invoke_def
      send_def getMe_def Let_def)

lemma awaiting_session_simps:
  "map_of (fetching awaiting_session) ''id1'' = Some 1"
  "fetching awaiting_session = [(''id1'', 1)]"
  "client awaiting_session = Some 7"
  "paused awaiting_session = False"
  "options awaiting_session = example_options"
  "connectionState awaiting_session = JObj [(''_'', JStr ''connectionStateConnecting'')]"
  "fired (trace awaiting_session) = []"
  "published ev (trace awaiting_session) = []"
  by (simp_all add: awaiting_session_eq connected_session_eq fresh_session_def)

lemma reply_simps:
  "jget user_reply ''@extra'' = JStr ''id1''"
  "jget user_reply ''_'' = JStr ''user''"
  "jdelete ''@extra'' user_reply = JObj [(''_'', JStr ''user''), (''id'', JNum 1)]"
  "jget request_error ''@extra'' = JStr ''id1''"
  "jget request_error ''_'' = JStr ''error''"
  "jdelete ''@extra'' request_error =
     JObj [(''_'', JStr ''error''), (''code'', JNum 429), (''message'', JStr ''Too Many Requests'')]"
  "truthy user_reply" "truthy request_error"
  "well_formed user_reply" "well_formed request_error"
  by (simp_all add: user_reply_def request_error_def well_formed_def)

lemma handleError_unmatched_emits:
  assumes "fetching_get s (jget err ''@extra'') = None"
    and "jget err ''@extra'' \<noteq> JStr TDL_MAGIC" and "\<not> nullish err"
  shows "handleError s err = (emit s ''error'' (PJson err), None)"
  using assms by (simp add: handleError_def Let_def)

text \<open>
  C7 as stated fails at the router. The request \<open>id1\<close> is pending. The
  first error under that id rejects the request and publishes no \<open>error\<close> event;
  the second one is published as an \<open>error\<close> event. The first reply under that id
  resolves the request and publishes no \<open>update\<close> event; the second one is
  published as an \<open>update\<close> event. So two messages for one id do not have the
  observable effect of one.
\<close>

theorem duplicate_message_is_published:
  "published ''error'' (trace (fst (handleResponse example_env awaiting_session request_error)))
     = [] \<and>
   published ''error'' (trace (fst (handleResponse example_env
       (fst (handleResponse example_env awaiting_session request_error)) request_error)))
     = [PJson request_error] \<and>
   published ''update'' (trace (fst (handleResponse example_env awaiting_session user_reply)))
     = [] \<and>
   published ''update'' (trace (fst (handleResponse example_env
       (fst (handleResponse example_env awaiting_session user_reply)) user_reply)))
     = [PJson user_reply]"
proof -
  let ?e1 = "fst (handleResponse example_env awaiting_session request_error)"
  let ?r1 = "fst (handleResponse example_env awaiting_session user_reply)"
  have k: "JStr ''id1'' \<noteq> JStr TDL_MAGIC"
    by (simp add: TDL_MAGIC_def)
  have obj: "\<not> nullish request_error" "\<not> nullish user_reply"
    using reply_simps(9,10) by (simp_all add: well_formed_def)
  have e1: "?e1 = awaiting_session\<lparr> trace := trace awaiting_session @
            [Emit ''response'' (PJson request_error),
             Fire 1 (Reject (PJson (jdelete ''@extra'' request_error)))],
           fetching := [] \<rparr>"
    by (simp add: handleResponse_matched [OF awaiting_session_simps(1) reply_simps(4)]
        reply_simps(5) awaiting_session_simps(2))
  have r1: "?r1 = awaiting_session\<lparr> trace := trace awaiting_session @
            [Emit ''response'' (PJson user_reply),
             Fire 1 (Resolve (PJson (jdelete ''@extra'' user_reply)))],
           fetching := [] \<rparr>"
    by (simp add: handleResponse_matched [OF awaiting_session_simps(1) reply_simps(1)]
        reply_simps(2) awaiting_session_simps(2))
  have ne: "fetching_get ?e1 (jget request_error ''@extra'') = None"
    "fetching_get (emit ?e1 ''response'' (PJson request_error)) (jget request_error ''@extra'') = None"
    by (simp_all add: e1 fetching_get_def emit_def reply_simps(4))
  have nr: "fetching_get ?r1 (jget user_reply ''@extra'') = None"
    by (simp add: r1 fetching_get_def reply_simps(1))
  have e2: "handleResponse example_env ?e1 request_error =
      (emit (emit ?e1 ''response'' (PJson request_error)) ''error'' (PJson request_error), None)"
    using k
    by (simp add: handleResponse_unmatched [OF ne(1) obj(1)] reply_simps(4,5)
        handleError_unmatched_emits [OF ne(2) _ obj(1)])
  have r2: "handleResponse example_env ?r1 user_reply =
      handleUpdate example_env (emit ?r1 ''response'' (PJson user_reply)) user_reply"
    using k by (simp add: handleResponse_unmatched [OF nr obj(2)] reply_simps(1,2))
  have cs: "\<not> nullish (connectionState (emit ?r1 ''response'' (PJson user_reply)))"
    by (simp add: r1 emit_def awaiting_session_simps(6))
  have a: "published ''error'' (trace ?e1) = []"
    by (simp add: e1 awaiting_session_simps(8))
  have b: "published ''error'' (trace (fst (handleResponse example_env ?e1 request_error)))
      = [PJson request_error]"
    unfolding e2 by (simp add: e1 emit_def awaiting_session_simps(8))
  have c: "published ''update'' (trace ?r1) = []"
    by (simp add: r1 awaiting_session_simps(8))
  have d: "published ''update'' (trace (fst (handleResponse example_env ?r1 user_reply)))
      = [PJson user_reply]"
    unfolding r2 handleUpdate_published [OF reply_simps(9) cs]
    by (simp add: r1 emit_def awaiting_session_simps(5,8) privileged_def reply_simps(2)
        example_options_def)
  from a b c d show ?thesis by blast
qed

text \<open>
  C7, amended. Let a message carry the id of a pending request. Routing it calls the
  promise function of that request once (reject for an error, resolve otherwise, with
  the message without its \<open>@extra\<close>) and removes the entry. A second message with
  the same id finds no entry: it settles nothing and leaves the map of pending
  requests as the first call left it. It is not a no-op: the router publishes it as
  \<open>response\<close> and treats it as an uncorrelated message, so that an error goes to the
  error handler, which publishes it as \<open>error\<close> when the id is not the sentinel, and
  any other message goes to the update handler, unless the id is the sentinel. No
  promise function is called on that way when the id is not the sentinel and the
  message is no authorization-state update.
\<close>

theorem pending_request_settled_once:
  assumes "map_of (fetching s) k = Some p"
    and "jget m ''@extra'' = JStr k"
    and "jget m' ''@extra'' = JStr k"
  shows
    "handleResponse ev s m =
       (s\<lparr> trace := trace s @
            [Emit ''response'' (PJson m),
             Fire p ((if jget m ''_'' = JStr ''error'' then Reject else Resolve)
                       (PJson (jdelete ''@extra'' m)))],
           fetching := AList.delete k (fetching s) \<rparr>, None) \<and>
     map_of (fetching (fst (handleResponse ev s m))) k = None \<and>
     handleResponse ev (fst (handleResponse ev s m)) m' =
       (if jget m' ''_'' = JStr ''error''
        then handleError (emit (fst (handleResponse ev s m)) ''response'' (PJson m')) m'
        else if k \<noteq> TDL_MAGIC
        then handleUpdate ev (emit (fst (handleResponse ev s m)) ''response'' (PJson m')) m'
        else (emit (fst (handleResponse ev s m)) ''response'' (PJson m'), None)) \<and>
     fetching (fst (handleResponse ev (fst (handleResponse ev s m)) m'))
       = fetching (fst (handleResponse ev s m)) \<and>
     (k \<noteq> TDL_MAGIC \<and> jget m' ''_'' = JStr ''error'' \<longrightarrow>
        trace (fst (handleResponse ev (fst (handleResponse ev s m)) m'))
          = trace (fst (handleResponse ev s m)) @
            [Emit ''response'' (PJson m'), Emit ''error'' (PJson m')]) \<and>
     (k \<noteq> TDL_MAGIC \<and> jget m' ''_'' \<noteq> JStr ''updateAuthorizationState'' \<longrightarrow>
        fired (trace (fst (handleResponse ev (fst (handleResponse ev s m)) m')))
          = fired (trace (fst (handleResponse ev s m))))"
proof -
  let ?s1 = "fst (handleResponse ev s m)"
  let ?e = "emit ?s1 ''response'' (PJson m')"
  have obj: "\<not> nullish m'"
    by (rule jget_JStr_not_nullish [OF assms(3)])
  have first: "handleResponse ev s m =
       (s\<lparr> trace := trace s @
            [Emit ''response'' (PJson m),
             Fire p ((if jget m ''_'' = JStr ''error'' then Reject else Resolve)
                       (PJson (jdelete ''@extra'' m)))],
           fetching := AList.delete k (fetching s) \<rparr>, None)"
    by (rule handleResponse_matched [OF assms(1,2)])
  have gone: "map_of (fetching ?s1) k = None"
    by (simp add: first delete_conv')
  then have unmatched: "fetching_get ?s1 (jget m' ''@extra'') = None"
    "fetching_get ?e (jget m' ''@extra'') = None"
    using assms(3) by (simp_all add: fetching_get_def emit_def)
  have second: "handleResponse ev ?s1 m' =
       (if jget m' ''_'' = JStr ''error'' then handleError ?e m'
        else if k \<noteq> TDL_MAGIC then handleUpdate ev ?e m'
        else (?e, None))"
    using assms(3) by (simp add: handleResponse_unmatched [OF unmatched(1) obj])
  have e: "fetching ?e = fetching ?s1" "fired (trace ?e) = fired (trace ?s1)"
    "trace ?e = trace ?s1 @ [Emit ''response'' (PJson m')]"
    by (simp_all add: emit_def)
  have same: "fetching (fst (handleResponse ev ?s1 m')) = fetching ?s1"
    using handleError_unmatched [OF unmatched(2)] handleUpdate_frame(2) [of ev ?e m'] e(1)
    by (simp add: second frame_def)
  have err: "trace (fst (handleResponse ev ?s1 m'))
          = trace ?s1 @ [Emit ''response'' (PJson m'), Emit ''error'' (PJson m')]"
    if "k \<noteq> TDL_MAGIC" "jget m' ''_'' = JStr ''error''"
    using that assms(3) handleError_unmatched_emits [OF unmatched(2) _ obj]
    by (simp add: second emit_def)
  have quiet: "fired (trace (fst (handleResponse ev ?s1 m'))) = fired (trace ?s1)"
    if "k \<noteq> TDL_MAGIC" "jget m' ''_'' \<noteq> JStr ''updateAuthorizationState''"
    using that assms(3) handleError_unmatched_emits [OF unmatched(2) _ obj]
      handleUpdate_fired [of m' ev ?e] e(2)
    by (simp add: second emit_def)
  from first gone second same err quiet show ?thesis
    by blast
qed

theorem pending_request_settled_once_witness:
  "fired (trace (fst (handleResponse example_env awaiting_session user_reply)))
     = [(1, Resolve (PJson (JObj [(''_'', JStr ''user''), (''id'', JNum 1)])))] \<and>
   fetching (fst (handleResponse example_env awaiting_session user_reply)) = [] \<and>
   fetching (fst (handleResponse example_env
       (fst (handleResponse example_env awaiting_session user_reply)) user_reply)) = [] \<and>
   fired (trace (fst (handleResponse example_env
       (fst (handleResponse example_env awaiting_session user_reply)) user_reply)))
     = [(1, Resolve (PJson (JObj [(''_'', JStr ''user''), (''id'', JNum 1)])))] \<and>
   fired (trace (fst (handleResponse example_env
       (fst (handleResponse example_env awaiting_session request_error)) request_error)))
     = [(1, Reject (PJson (JObj [(''_'', JStr ''error''), (''code'', JNum 429),
             (''message'', JStr ''Too Many Requests'')])))] \<and>
   trace (fst (handleResponse example_env
       (fst (handleResponse example_env awaiting_session request_error)) request_error))
     = trace awaiting_session @
         [Emit ''response'' (PJson request_error),
          Fire 1 (Reject (PJson (JObj [(''_'', JStr ''error''), (''code'', JNum 429),
             (''message'', JStr ''Too Many Requests'')]))),
          Emit ''response'' (PJson request_error), Emit ''error'' (PJson request_error)]"
proof -
  have k: "''id1'' \<noteq> TDL_MAGIC"
    by (simp add: TDL_MAGIC_def)
  note s = awaiting_session_simps
  note m = reply_simps
  note reply = pending_request_settled_once [OF s(1) m(1) m(1), of example_env]
  note error = pending_request_settled_once [OF s(1) m(4) m(4), of example_env]
  have r1: "fired (trace (fst (handleResponse example_env awaiting_session user_reply)))
     = [(1, Resolve (PJson (JObj [(''_'', JStr ''user''), (''id'', JNum 1)])))]"
    "fetching (fst (handleResponse example_env awaiting_session user_reply)) = []"
    using reply [THEN conjunct1] by (simp_all add: s m)
  have e1: "fired (trace (fst (handleResponse example_env awaiting_session request_error)))
     = [(1, Reject (PJson (JObj [(''_'', JStr ''error''), (''code'', JNum 429),
             (''message'', JStr ''Too Many Requests'')])))]"
    "trace (fst (handleResponse example_env awaiting_session request_error)) =
       trace awaiting_session @
         [Emit ''response'' (PJson request_error),
          Fire 1 (Reject (PJson (JObj [(''_'', JStr ''error''), (''code'', JNum 429),
             (''message'', JStr ''Too Many Requests'')])))]"
    using error [THEN conjunct1] by (simp_all add: s m)
  have r2: "fetching (fst (handleResponse example_env
       (fst (handleResponse example_env awaiting_session user_reply)) user_reply)) = []"
    using reply [THEN conjunct2, THEN conjunct2, THEN conjunct2, THEN conjunct1] r1(2) by simp
  have r3: "fired (trace (fst (handleResponse example_env
       (fst (handleResponse example_env awaiting_session user_reply)) user_reply)))
     = [(1, Resolve (PJson (JObj [(''_'', JStr ''user''), (''id'', JNum 1)])))]"
    using reply [THEN conjunct2, THEN conjunct2, THEN conjunct2, THEN conjunct2, THEN conjunct2]
      k r1(1)
    by (simp add: m)
  have e2: "fired (trace (fst (handleResponse example_env
       (fst (handleResponse example_env awaiting_session request_error)) request_error)))
     = [(1, Reject (PJson (JObj [(''_'', JStr ''error''), (''code'', JNum 429),
             (''message'', JStr ''Too Many Requests'')])))]"
    using error [THEN conjunct2, THEN conjunct2, THEN conjunct2, THEN conjunct2, THEN conjunct2]
      k e1(1)
    by (simp add: m)
  have e3: "trace (fst (handleResponse example_env
       (fst (handleResponse example_env awaiting_session request_error)) request_error))
     = trace awaiting_session @
         [Emit ''response'' (PJson request_error),
          Fire 1 (Reject (PJson (JObj [(''_'', JStr ''error''), (''code'', JNum 429),
             (''message'', JStr ''Too Many Requests'')]))),
          Emit ''response'' (PJson request_error), Emit ''error'' (PJson request_error)]"
    using error [THEN conjunct2, THEN conjunct2, THEN conjunct2, THEN conjunct2, THEN conjunct1]
      k e1(2)
    by (simp add: m)
  from r1 r2 r3 e2 e3 show ?thesis by blast
qed

section \<open>Properties of destroy and the receive loop\<close>

text \<open>
  C9 as stated fails for a reply that is on its way. The request \<open>id1\<close> is
  outstanding and the loop awaits a receive when \<open>destroy\<close> is called; the receive
  then gives the reply to \<open>id1\<close>. The loop does not test the handle after the
  receive: the reply is routed, the promise of the request is resolved and its entry
  is removed from the map, after the \<open>destroy\<close> event.
\<close>

theorem reply_in_flight_settles_after_destroy:
  "trace (loop example_env awaiting_session [([Destroy], Message user_reply)]) =
     trace awaiting_session @
       [TdDestroy 7, Emit ''destroy'' PNone, Emit ''response'' (PJson user_reply),
        Fire 1 (Resolve (PJson (JObj [(''_'', JStr ''user''), (''id'', JNum 1)])))] \<and>
   fetching (loop example_env awaiting_session [([Destroy], Message user_reply)]) = [] \<and>
   fetching awaiting_session = [(''id1'', 1)]"
proof -
  have d: "destroy awaiting_session =
      awaiting_session\<lparr> client := None,
        trace := trace awaiting_session @ [TdDestroy 7, Emit ''destroy'' PNone] \<rparr>"
    by (simp add: destroy_def resume_def emit_def awaiting_session_simps(3,4))
  have p: "map_of (fetching (destroy awaiting_session)) ''id1'' = Some 1"
    by (simp add: d awaiting_session_simps(2))
  have l: "loop example_env awaiting_session [([Destroy], Message user_reply)] =
      caught (handleResponse example_env (destroy awaiting_session) user_reply)"
    by (simp add: awaiting_session_simps(3,4) reply_simps(7))
  show ?thesis
    unfolding l handleResponse_matched [OF p reply_simps(1)]
    by (simp add: caught_def d reply_simps(2,3) awaiting_session_simps(2))
qed

text \<open>
  C9, amended. Let \<open>destroy\<close> be called on a session with a live engine handle,
  whatever requests are outstanding. If the engine's \<open>destroy\<close> returns, the handle
  is released, a paused loop is woken and \<open>destroy\<close> is published, once; no
  exception leaves the method, it calls no promise function and it leaves every
  pending request in the map. If the engine's \<open>destroy\<close> throws, that exception
  leaves the method, with the handle still in place and nothing published. A second
  \<open>destroy\<close> changes nothing and does not call the engine. From its next turn on,
  the receive loop routes nothing, whatever the engine would still answer. A message
  of the receive that was in flight when \<open>destroy\<close> was called is still routed, as
  on a live session: only such a message can settle an outstanding request.
\<close>

theorem destroy_abandons_pending:
  assumes "client s = Some h"
  shows "destroy_call s None =
           (s\<lparr> client := None, paused := False,
              trace := trace s @ [TdDestroy h] @
                (if paused s then [Emit ''_resume'' PNone] else []) @
                [Emit ''destroy'' PNone] \<rparr>, None) \<and>
         destroy_call s (Some e) = (s\<lparr> trace := trace s @ [TdDestroy h] \<rparr>, Some e) \<and>
         fetching (fst (destroy_call s None)) = fetching s \<and>
         fired (trace (fst (destroy_call s None))) = fired (trace s) \<and>
         published ''destroy'' (trace (fst (destroy_call s None)))
           = published ''destroy'' (trace s) @ [PNone] \<and>
         destroy_call (fst (destroy_call s None)) x = (fst (destroy_call s None), None) \<and>
         loop ev (fst (destroy_call s None)) ts = fst (destroy_call s None) \<and>
         (\<not> paused s \<longrightarrow>
            loop ev s [([Destroy], r)] =
              (case r of
                 Nothing \<Rightarrow> fst (destroy_call s None)
               | Raised e' \<Rightarrow> catchError (fst (destroy_call s None)) (PExn (TdlError e' None))
               | Message m \<Rightarrow>
                   if truthy m then caught (handleResponse ev (fst (destroy_call s None)) m)
                   else fst (destroy_call s None)))"
proof -
  let ?d = "fst (destroy_call s None)"
  have dc: "destroy_call s None = (destroy s, None)"
    using assms by (simp add: destroy_call_def)
  have eq: "destroy s =
           s\<lparr> client := None, paused := False,
              trace := trace s @ [TdDestroy h] @
                (if paused s then [Emit ''_resume'' PNone] else []) @
                [Emit ''destroy'' PNone] \<rparr>"
    using assms by (simp add: destroy_def resume_def emit_def)
  have c1: "destroy_call s None =
           (s\<lparr> client := None, paused := False,
              trace := trace s @ [TdDestroy h] @
                (if paused s then [Emit ''_resume'' PNone] else []) @
                [Emit ''destroy'' PNone] \<rparr>, None)"
    unfolding dc using eq by simp
  have c2: "destroy_call s (Some e) = (s\<lparr> trace := trace s @ [TdDestroy h] \<rparr>, Some e)"
    using assms by (simp add: destroy_call_def)
  have d: "?d = destroy s"
    by (simp add: dc)
  have gone: "client ?d = None"
    by (simp add: d eq)
  have c6: "destroy_call ?d x = (?d, None)"
    using gone by (simp add: destroy_call_def)
  have c7: "loop ev ?d ts = ?d"
    using gone by (cases ts) auto
  have c345: "fetching ?d = fetching s" "fired (trace ?d) = fired (trace s)"
    "published ''destroy'' (trace ?d) = published ''destroy'' (trace s) @ [PNone]"
    by (simp_all add: d eq)
  have c8: "loop ev s [([Destroy], r)] =
              (case r of
                 Nothing \<Rightarrow> ?d
               | Raised e' \<Rightarrow> catchError ?d (PExn (TdlError e' None))
               | Message m \<Rightarrow>
                   if truthy m then caught (handleResponse ev ?d m) else ?d)"
    if "\<not> paused s"
    using that assms by (simp add: d split: received.splits)
  from c1 c2 c345 c6 c7 c8 show ?thesis
    by blast
qed

theorem destroy_abandons_pending_witness:
  "fetching (fst (destroy_call awaiting_session None)) = [(''id1'', 1)] \<and>
   fired (trace (fst (destroy_call awaiting_session None))) = [] \<and>
   published ''destroy'' (trace (fst (destroy_call awaiting_session None))) = [PNone] \<and>
   snd (destroy_call awaiting_session None) = None \<and>
   snd (destroy_call awaiting_session (Some (Error ''engine''))) = Some (Error ''engine'') \<and>
   destroy_call (fst (destroy_call awaiting_session None)) None
     = (fst (destroy_call awaiting_session None), None) \<and>
   loop example_env (fst (destroy_call awaiting_session None)) [([], Message user_reply)]
     = fst (destroy_call awaiting_session None) \<and>
   loop example_env awaiting_session [([Destroy], Nothing)]
     = fst (destroy_call awaiting_session None)"
proof -
  note s = awaiting_session_simps
  note th = destroy_abandons_pending [OF s(3), of "Error ''engine''" None example_env
      "[([], Message user_reply)]" Nothing]
  have a: "fetching (fst (destroy_call awaiting_session None)) = [(''id1'', 1)]"
    using th [THEN conjunct2, THEN conjunct2, THEN conjunct1] by (simp add: s)
  have b: "fired (trace (fst (destroy_call awaiting_session None))) = []"
    using th [THEN conjunct2, THEN conjunct2, THEN conjunct2, THEN conjunct1] by (simp add: s)
  have c: "published ''destroy'' (trace (fst (destroy_call awaiting_session None))) = [PNone]"
    using th [THEN conjunct2, THEN conjunct2, THEN conjunct2, THEN conjunct2, THEN conjunct1]
    by (simp add: s)
  have d: "snd (destroy_call awaiting_session None) = None"
    using th [THEN conjunct1] by simp
  have e: "snd (destroy_call awaiting_session (Some (Error ''engine''))) = Some (Error ''engine'')"
    using th [THEN conjunct2, THEN conjunct1] by simp
  have f: "destroy_call (fst (destroy_call awaiting_session None)) None
     = (fst (destroy_call awaiting_session None), None)"
    by (rule th [THEN conjunct2, THEN conjunct2, THEN conjunct2, THEN conjunct2, THEN conjunct2,
          THEN conjunct1])
  have g: "loop example_env (fst (destroy_call awaiting_session None)) [([], Message user_reply)]
     = fst (destroy_call awaiting_session None)"
    by (rule th [THEN conjunct2, THEN conjunct2, THEN conjunct2, THEN conjunct2, THEN conjunct2,
          THEN conjunct2, THEN conjunct1])
  have h: "loop example_env awaiting_session [([Destroy], Nothing)]
     = fst (destroy_call awaiting_session None)"
    using th [THEN conjunct2, THEN conjunct2, THEN conjunct2, THEN conjunct2, THEN conjunct2,
          THEN conjunct2, THEN conjunct2] s(4)
    by simp
  from a b c d e f g h show ?thesis by blast
qed

end
